theory Spec2Isabelle
  imports Complex_Main "HOL-Library.Multiset"
begin

section \<open>Python exceptions and the outcome of a mutating call\<close>

text \<open>
  The modules are Python classes whose methods mutate the receiver. A method is modelled
  as a function from the state before the call to an outcome: either the call returned
  (\<open>Done\<close>, with the state after it) or an exception left it (\<open>Raised\<close>, with the
  exception and the state as the exception found it, so that a mutation made before the
  raise stays visible).
\<close>

datatype error = ValueError | IndexError | UnboundLocalError | TypeError | KeyError

datatype 's outcome = Done 's | Raised error 's

fun state_of :: "'s outcome \<Rightarrow> 's" where
  "state_of (Done s) = s"
| "state_of (Raised e s) = s"

fun raised :: "'s outcome \<Rightarrow> error option" where
  "raised (Done s) = None"
| "raised (Raised e s) = Some e"

section \<open>ctr: contrasts definitions\<close>

text \<open>
  \<open>Contrast\<close> holds a name and a one-dimensional series. The header of a
  \<open>ContrastsDefinition\<close> is an ordered dictionary whose three schema keys are set by
  \<open>clear\<close> and never removed, and whose values are integers (\<open>load\<close> stores
  \<open>int(...)\<close> only); the three keys are the fields of a record.
\<close>

record contrast =
  contrast_name :: string
  contrast_data :: "int list"

record ctr_header =
  ctr_FileVersion :: int
  ctr_NrOfContrasts :: int
  ctr_NrOfValues :: int

record contrasts_definition =
  ctr_hdr :: ctr_header
  ctr_contrasts :: "contrast list"

definition ctr_clear :: contrasts_definition where
  "ctr_clear =
     \<lparr>ctr_hdr = \<lparr>ctr_FileVersion = 1, ctr_NrOfContrasts = 0, ctr_NrOfValues = 0\<rparr>,
      ctr_contrasts = []\<rparr>"

text \<open>
  \<open>ContrastsDefinition.add_contrast\<close>: the length check, then the counter. The
  method has no statement that touches \<open>self._contrasts\<close>.
\<close>

definition add_contrast ::
  "contrasts_definition \<Rightarrow> contrast \<Rightarrow> contrasts_definition outcome" where
  "add_contrast d c =
     (let h = ctr_hdr d; n = int (length (contrast_data c)) in
      if ctr_NrOfContrasts h = 0 then
        Done (d\<lparr>ctr_hdr := h\<lparr>ctr_NrOfValues := n,
                               ctr_NrOfContrasts := ctr_NrOfContrasts h + 1\<rparr>\<rparr>)
      else if ctr_NrOfValues h \<noteq> n then Raised ValueError d
      else Done (d\<lparr>ctr_hdr := h\<lparr>ctr_NrOfContrasts := ctr_NrOfContrasts h + 1\<rparr>\<rparr>))"

text \<open>Adding a sequence of records, stopping at the first call that raises.\<close>

fun ctr_build ::
  "contrasts_definition \<Rightarrow> contrast list \<Rightarrow> contrasts_definition option" where
  "ctr_build d [] = Some d"
| "ctr_build d (c # cs) =
     (case add_contrast d c of Done d' \<Rightarrow> ctr_build d' cs | Raised e d' \<Rightarrow> None)"

section \<open>The data accessor of ctr and sdm\<close>

text \<open>
  A two-dimensional numpy array: its shape and its rows. \<open>np.array([x.data]).T\<close> is
  the column holding a series; \<open>np.append(a, b, axis=1)\<close> glues the rows of two arrays
  and raises \<open>ValueError\<close> when the row counts differ.
\<close>

record 'a ndarray2 =
  shape0 :: nat
  shape1 :: nat
  rows :: "'a list list"

definition column_array :: "'a list \<Rightarrow> 'a ndarray2" where
  "column_array xs = \<lparr>shape0 = length xs, shape1 = 1, rows = map (\<lambda>v. [v]) xs\<rparr>"

definition np_append_axis1 :: "'a ndarray2 \<Rightarrow> 'a ndarray2 \<Rightarrow> error + 'a ndarray2" where
  "np_append_axis1 a b =
     (if shape0 a \<noteq> shape0 b then Inl ValueError
      else Inr \<lparr>shape0 = shape0 a, shape1 = shape1 a + shape1 b,
                rows = map2 (@) (rows a) (rows b)\<rparr>)"

text \<open>
  The loop of the \<open>data\<close> property, over \<open>enumerate\<close>: \<open>rtn\<close> is bound in the first
  iteration and extended in the others; \<open>return rtn\<close> with \<open>rtn\<close> unbound raises
  \<open>UnboundLocalError\<close>.
\<close>

fun data_loop :: "nat \<Rightarrow> 'a ndarray2 option \<Rightarrow> 'a list list \<Rightarrow> error + 'a ndarray2 option" where
  "data_loop c rtn [] = Inr rtn"
| "data_loop c rtn (x # xs) =
     (if c = 0 then data_loop (Suc c) (Some (column_array x)) xs
      else (case rtn of
              None \<Rightarrow> Inl UnboundLocalError
            | Some m \<Rightarrow>
                (case np_append_axis1 m (column_array x) of
                   Inl e \<Rightarrow> Inl e
                 | Inr m' \<Rightarrow> data_loop (Suc c) (Some m') xs)))"

definition data_property :: "'a list list \<Rightarrow> error + 'a ndarray2" where
  "data_property series =
     (case data_loop 0 None series of
        Inl e \<Rightarrow> Inl e
      | Inr None \<Rightarrow> Inl UnboundLocalError
      | Inr (Some m) \<Rightarrow> Inr m)"

definition ctr_data :: "contrasts_definition \<Rightarrow> error + int ndarray2" where
  "ctr_data d = data_property (map contrast_data (ctr_contrasts d))"

section \<open>sdm: single-subject design matrices\<close>

text \<open>
  A predictor's series holds numbers of any kind (the element type is a parameter).
  The header's five schema keys hold integers, as in ctr.
\<close>

record 'a predictor =
  predictor_name :: string
  predictor_data :: "'a list"
  predictor_colour :: "int list"

record sdm_header =
  sdm_FileVersion :: int
  sdm_NrOfPredictors :: int
  sdm_NrOfDataPoints :: int
  sdm_IncludesConstant :: int
  sdm_FirstConfoundPredictor :: int

record 'a sdm_design_matrix =
  sdm_hdr :: sdm_header
  sdm_predictors :: "'a predictor list"

definition sdm_clear :: "'a sdm_design_matrix" where
  "sdm_clear =
     \<lparr>sdm_hdr = \<lparr>sdm_FileVersion = 1, sdm_NrOfPredictors = 0, sdm_NrOfDataPoints = 0,
                 sdm_IncludesConstant = 0, sdm_FirstConfoundPredictor = 1\<rparr>,
      sdm_predictors = []\<rparr>"

text \<open>
  \<open>list.insert(i, x)\<close>: a negative index counts from the end, and an index beyond
  either end is clamped to it.
\<close>

definition py_insert :: "'a list \<Rightarrow> int \<Rightarrow> 'a \<Rightarrow> 'a list" where
  "py_insert xs i x =
     (let n = int (length xs);
          j = (if i < 0 then max 0 (i + n) else min i n)
      in take (nat j) xs @ [x] @ drop (nat j) xs)"

definition add_predictor ::
  "'a sdm_design_matrix \<Rightarrow> 'a predictor \<Rightarrow> bool \<Rightarrow> 'a sdm_design_matrix outcome" where
  "add_predictor d p is_confound =
     (let h = sdm_hdr d; n = int (length (predictor_data p)) in
      if sdm_NrOfPredictors h > 0 \<and> n \<noteq> sdm_NrOfDataPoints h then Raised ValueError d
      else
        let position = (if is_confound
                        then sdm_NrOfPredictors h - sdm_IncludesConstant h
                        else sdm_FirstConfoundPredictor h - 1);
            ps = py_insert (sdm_predictors d) position p;
            h1 = (if sdm_NrOfPredictors h = 0 then h\<lparr>sdm_NrOfDataPoints := n\<rparr> else h);
            h2 = h1\<lparr>sdm_NrOfPredictors := sdm_NrOfPredictors h1 + 1\<rparr>;
            h3 = (if \<not> is_confound
                  then h2\<lparr>sdm_FirstConfoundPredictor := sdm_FirstConfoundPredictor h2 + 1\<rparr>
                  else h2)
        in Done \<lparr>sdm_hdr = h3, sdm_predictors = ps\<rparr>)"

fun sdm_build ::
  "'a sdm_design_matrix \<Rightarrow> ('a predictor \<times> bool) list \<Rightarrow> 'a sdm_design_matrix option" where
  "sdm_build d [] = Some d"
| "sdm_build d ((p, conf) # ps) =
     (case add_predictor d p conf of Done d' \<Rightarrow> sdm_build d' ps | Raised e d' \<Rightarrow> None)"

definition sdm_data :: "'a sdm_design_matrix \<Rightarrow> error + 'a ndarray2" where
  "sdm_data d = data_property (map predictor_data (sdm_predictors d))"

section \<open>Python strings\<close>

text \<open>
  A \<open>str\<close> is a \<open>string\<close>; a text file is the string of its characters, with
  \<open>\n\<close> as the line terminator. The helpers below are the \<open>str\<close> methods the
  modules call.
\<close>

definition is_space :: "char \<Rightarrow> bool" where
  "is_space c = (c \<in> set [CHR '' '', CHR 0x09, CHR 0x0A, CHR 0x0B, CHR 0x0C, CHR 0x0D,
                            CHR 0x1C, CHR 0x1D, CHR 0x1E, CHR 0x1F])"

text \<open>\<open>s.strip(chars)\<close> and \<open>s.strip()\<close>.\<close>

definition strip_chars :: "string \<Rightarrow> string \<Rightarrow> string" where
  "strip_chars cs s =
     rev (dropWhile (\<lambda>c. c \<in> set cs) (rev (dropWhile (\<lambda>c. c \<in> set cs) s)))"

definition strip :: "string \<Rightarrow> string" where
  "strip s = rev (dropWhile is_space (rev (dropWhile is_space s)))"

definition startswith :: "string \<Rightarrow> string \<Rightarrow> bool" where
  "startswith s p = (take (length p) s = p)"

definition ljust :: "nat \<Rightarrow> string \<Rightarrow> string" where
  "ljust n s = s @ replicate (n - length s) CHR '' ''"

definition rjust :: "nat \<Rightarrow> string \<Rightarrow> string" where
  "rjust n s = replicate (n - length s) CHR '' '' @ s"

text \<open>\<open>sep.join(xs)\<close>.\<close>

fun py_join :: "string \<Rightarrow> string list \<Rightarrow> string" where
  "py_join sep [] = []"
| "py_join sep [x] = x"
| "py_join sep (x # y # ys) = x @ sep @ py_join sep (y # ys)"

text \<open>\<open>s.split(c)\<close> for a separator of one character: empty fields are kept.\<close>

fun split_char :: "char \<Rightarrow> string \<Rightarrow> string list" where
  "split_char sep [] = [[]]"
| "split_char sep (c # cs) =
     (if c = sep then [] # split_char sep cs
      else (case split_char sep cs of
              [] \<Rightarrow> [[c]]
            | l # ls \<Rightarrow> (c # l) # ls))"

text \<open>\<open>s.split(c, 1)\<close>: at most one split, at the first separator.\<close>

definition split_first :: "char \<Rightarrow> string \<Rightarrow> string list" where
  "split_first sep s =
     (if sep \<in> set s
      then [takeWhile (\<lambda>c. c \<noteq> sep) s, tl (dropWhile (\<lambda>c. c \<noteq> sep) s)]
      else [s])"

text \<open>\<open>f.readlines()\<close>: the lines of a file, each with its terminator.\<close>

fun readlines :: "string \<Rightarrow> string list" where
  "readlines [] = []"
| "readlines (c # cs) =
     (if c = CHR 0x0A then [c] # readlines cs
      else (case readlines cs of
              [] \<Rightarrow> [[c]]
            | l # ls \<Rightarrow> (c # l) # ls))"

text \<open>\<open>str(n)\<close> of an integer.\<close>

definition digit_char :: "nat \<Rightarrow> char" where
  "digit_char n = ''0123456789'' ! n"

function str_nat :: "nat \<Rightarrow> string" where
  "str_nat n = (if n < 10 then [digit_char n] else str_nat (n div 10) @ [digit_char (n mod 10)])"
  by pat_completeness auto
termination
  by (relation "measure id") auto

declare str_nat.simps [simp del]

definition str_int :: "int \<Rightarrow> string" where
  "str_int i = (if i < 0 then CHR ''-'' # str_nat (nat (- i)) else str_nat (nat i))"

text \<open>
  \<open>int(s)\<close> of a string: surrounding whitespace is dropped, a sign may lead, and the
  digits may be grouped by single underscores. \<open>None\<close> is the \<open>ValueError\<close>.
\<close>

definition digit_val :: "char \<Rightarrow> nat option" where
  "digit_val c = map_of (zip ''0123456789'' [0, 1, 2, 3, 4, 5, 6, 7, 8, 9]) c"

fun drop_underscores :: "string \<Rightarrow> string option" where
  "drop_underscores [] = Some []"
| "drop_underscores [c] = (if c = CHR ''_'' then None else Some [c])"
| "drop_underscores (c # d # cs) =
     (if c = CHR ''_'' then None
      else if d = CHR ''_'' then
        (case cs of
           [] \<Rightarrow> None
         | e # es \<Rightarrow> map_option (\<lambda>r. c # r) (drop_underscores cs))
      else map_option (\<lambda>r. c # r) (drop_underscores (d # cs)))"

fun parse_digits :: "nat \<Rightarrow> string \<Rightarrow> nat option" where
  "parse_digits acc [] = Some acc"
| "parse_digits acc (c # cs) =
     (case digit_val c of None \<Rightarrow> None | Some d \<Rightarrow> parse_digits (10 * acc + d) cs)"

definition parse_unsigned :: "string \<Rightarrow> nat option" where
  "parse_unsigned s =
     (case drop_underscores s of
        None \<Rightarrow> None
      | Some [] \<Rightarrow> None
      | Some (c # cs) \<Rightarrow> parse_digits 0 (c # cs))"

definition py_int :: "string \<Rightarrow> int option" where
  "py_int s =
     (case strip s of
        [] \<Rightarrow> None
      | c # cs \<Rightarrow>
          if c = CHR ''-'' then map_option (\<lambda>n. - int n) (parse_unsigned cs)
          else if c = CHR ''+'' then map_option int (parse_unsigned cs)
          else map_option int (parse_unsigned (c # cs)))"

text \<open>
  \<open>xs[i]\<close> and \<open>xs[:i]\<close> with Python's indices: a negative index counts from the
  end, a read outside the list raises \<open>IndexError\<close>, a slice is clamped.
\<close>

definition py_index :: "'a list \<Rightarrow> int \<Rightarrow> 'a option" where
  "py_index xs i =
     (if 0 \<le> i \<and> i < int (length xs) then Some (xs ! nat i)
      else if i < 0 \<and> - int (length xs) \<le> i then Some (xs ! nat (int (length xs) + i))
      else None)"

definition py_slice_to :: "'a list \<Rightarrow> int \<Rightarrow> 'a list" where
  "py_slice_to xs i = (if i < 0 then take (nat (int (length xs) + i)) xs else take (nat i) xs)"


text \<open>
  The loop \<open>for counter, line in enumerate(lines): if P(line): break\<close>: the value of
  \<open>counter\<close> after it. It is the index of the first line with \<open>P\<close>, the last index
  when no line has \<open>P\<close>, and unbound (\<open>None\<close>) when there is no line.
\<close>

fun find_counter :: "(string \<Rightarrow> bool) \<Rightarrow> nat \<Rightarrow> string list \<Rightarrow> nat option" where
  "find_counter P k [] = None"
| "find_counter P k [l] = Some k"
| "find_counter P k (l # m # ls) = (if P l then Some k else find_counter P (Suc k) (m # ls))"

section \<open>Ordered dictionaries as headers\<close>

text \<open>
  The headers of mdm, prt and voi hold values of several types and are extended by
  \<open>load\<close> with whatever keys the file has, so they are modelled as the
  \<open>OrderedDict\<close> they are: an association list in insertion order. Assigning to a
  key that is present replaces its value in place; a new key goes to the end.
\<close>

datatype hval = HInt int | HStr string | HList "int list"

type_synonym odict = "(string \<times> hval) list"

fun od_set :: "odict \<Rightarrow> string \<Rightarrow> hval \<Rightarrow> odict" where
  "od_set [] k v = [(k, v)]"
| "od_set ((k', v') # h) k v = (if k' = k then (k, v) # h else (k', v') # od_set h k v)"

definition od_get :: "odict \<Rightarrow> string \<Rightarrow> hval option" where
  "od_get h k = map_of h k"

text \<open>\<open>"{0}".format(v)\<close> of a header value; a list prints as Python prints lists.\<close>

fun format_hval :: "hval \<Rightarrow> string" where
  "format_hval (HInt i) = str_int i"
| "format_hval (HStr s) = s"
| "format_hval (HList xs) = ''['' @ py_join '', '' (map str_int xs) @ '']''"

section \<open>mdm: multi-subject design matrices\<close>

record study =
  data_files :: "string list"
  sdm_file :: string

text \<open>
  \<open>Study.__init__\<close> takes one path or a list of paths and stores a list.
\<close>

datatype files_arg = OneFile string | FileList "string list"

fun Study :: "files_arg \<Rightarrow> string \<Rightarrow> study" where
  "Study (OneFile f) sdm = \<lparr>data_files = [f], sdm_file = sdm\<rparr>"
| "Study (FileList fs) sdm = \<lparr>data_files = fs, sdm_file = sdm\<rparr>"

record mdm_design_matrix =
  mdm_header :: odict
  mdm_studies :: "study list"

definition mdm_clear :: mdm_design_matrix where
  "mdm_clear =
     \<lparr>mdm_header = [(''FileVersion'', HInt 3),
                     (''TypeOfFunctionalData'', HStr ''VTC''),
                     (''RFX-GLM'', HInt 0),
                     (''PSCTransformation'', HInt 1),
                     (''zTransformation'', HInt 0),
                     (''SeparatePredictors'', HInt 0),
                     (''NrOfStudies'', HInt 0)],
      mdm_studies = []\<rparr>"

text \<open>
  \<open>DesignMatrix.add_study\<close>. Reading a missing key raises \<open>KeyError\<close>; comparing or
  adding a value that is not a number with a number raises \<open>TypeError\<close>. The type of
  the functional data is read only when the count is positive (\<open>and\<close> is lazy).
\<close>

definition mdm_conflict :: "odict \<Rightarrow> int \<Rightarrow> string \<Rightarrow> error + bool" where
  "mdm_conflict h n t =
     (if n > 0 then
        (case od_get h ''TypeOfFunctionalData'' of
           None \<Rightarrow> Inl KeyError
         | Some v \<Rightarrow> Inr (v = HStr t))
      else Inr False)"

definition mdm_count_and_append :: "mdm_design_matrix \<Rightarrow> int \<Rightarrow> study \<Rightarrow> mdm_design_matrix" where
  "mdm_count_and_append d n s =
     d\<lparr>mdm_header := od_set (mdm_header d) ''NrOfStudies'' (HInt (n + 1)),
       mdm_studies := mdm_studies d @ [s]\<rparr>"

definition add_study :: "mdm_design_matrix \<Rightarrow> study \<Rightarrow> mdm_design_matrix outcome" where
  "add_study d s =
     (case od_get (mdm_header d) ''NrOfStudies'' of
        None \<Rightarrow> Raised KeyError d
      | Some (HInt n) \<Rightarrow>
          if length (data_files s) > 1 then
            (case mdm_conflict (mdm_header d) n ''VTC'' of
               Inl e \<Rightarrow> Raised e d
             | Inr True \<Rightarrow> Raised ValueError d
             | Inr False \<Rightarrow>
                 Done (mdm_count_and_append
                   (d\<lparr>mdm_header :=
                        od_set (mdm_header d) ''TypeOfFunctionalData'' (HStr ''MTC'')\<rparr>) n s))
          else
            (case mdm_conflict (mdm_header d) n ''MTC'' of
               Inl e \<Rightarrow> Raised e d
             | Inr True \<Rightarrow> Raised ValueError d
             | Inr False \<Rightarrow> Done (mdm_count_and_append d n s))
      | Some v \<Rightarrow> Raised TypeError d)"

fun mdm_build :: "mdm_design_matrix \<Rightarrow> study list \<Rightarrow> mdm_design_matrix option" where
  "mdm_build d [] = Some d"
| "mdm_build d (s # ss) =
     (case add_study d s of Done d' \<Rightarrow> mdm_build d' ss | Raised e d' \<Rightarrow> None)"

text \<open>
  \<open>_format_header\<close>, \<open>_format_studies\<close> and \<open>save\<close>: the text written to the file.
  Each of the two runs over \<open>enumerate\<close>; the line break after a study is guarded by the
  length of the header, as in the source.
\<close>

fun mdm_format_header_loop :: "nat \<Rightarrow> nat \<Rightarrow> odict \<Rightarrow> string" where
  "mdm_format_header_loop len c [] = []"
| "mdm_format_header_loop len c ((x, v) # h) =
     ljust 22 (x @ '':'') @ format_hval v
     @ (if int c < int len - 1 then [CHR 0x0A] else [])
     @ (if c \<in> set [1, 2, 5] then [CHR 0x0A] else [])
     @ mdm_format_header_loop len (Suc c) h"

definition mdm_format_header :: "mdm_design_matrix \<Rightarrow> string" where
  "mdm_format_header d = mdm_format_header_loop (length (mdm_header d)) 0 (mdm_header d)"

fun mdm_format_studies_loop :: "nat \<Rightarrow> nat \<Rightarrow> study list \<Rightarrow> string" where
  "mdm_format_studies_loop hlen c [] = []"
| "mdm_format_studies_loop hlen c (x # xs) =
     [CHR 0x22] @ py_join [CHR 0x22, CHR '' '', CHR 0x22] (data_files x)
     @ [CHR 0x22, CHR '' '', CHR 0x22] @ sdm_file x @ [CHR 0x22]
     @ (if int c < int hlen - 1 then [CHR 0x0A] else [])
     @ mdm_format_studies_loop hlen (Suc c) xs"

definition mdm_format_studies :: "mdm_design_matrix \<Rightarrow> string" where
  "mdm_format_studies d = mdm_format_studies_loop (length (mdm_header d)) 0 (mdm_studies d)"

definition mdm_save :: "mdm_design_matrix \<Rightarrow> string" where
  "mdm_save d = [CHR 0x0A] @ mdm_format_header d @ [CHR 0x0A] @ mdm_format_studies d"

text \<open>
  \<open>load\<close>: \<open>clear\<close>, then the header lines \<open>lines[:counter-1]\<close>, then one study per
  line of \<open>lines[counter:]\<close>. A study line with fewer than two quoted fields raises
  \<open>IndexError\<close>.
\<close>

definition mdm_header_value :: "string \<Rightarrow> hval" where
  "mdm_header_value line =
     (case py_int (strip (drop 22 line)) of
        Some i \<Rightarrow> HInt i
      | None \<Rightarrow> HStr (strip (drop 22 line)))"

fun mdm_load_header :: "odict \<Rightarrow> string list \<Rightarrow> odict" where
  "mdm_load_header h [] = h"
| "mdm_load_header h (line # ls) =
     (if strip line \<noteq> []
      then mdm_load_header (od_set h (strip_chars '': '' (take 22 line)) (mdm_header_value line)) ls
      else mdm_load_header h ls)"

definition mdm_parse_study :: "string \<Rightarrow> study option" where
  "mdm_parse_study line =
     (let tmp = filter (\<lambda>x. strip x \<noteq> []) (split_char CHR 0x22 line) in
      if length tmp > 2 then Some (Study (FileList (take 2 tmp)) (tmp ! 2))
      else if length tmp = 2 then Some (Study (FileList [tmp ! 0]) (tmp ! 1))
      else None)"

fun mdm_load_studies :: "mdm_design_matrix \<Rightarrow> string list \<Rightarrow> mdm_design_matrix outcome" where
  "mdm_load_studies d [] = Done d"
| "mdm_load_studies d (line # ls) =
     (case mdm_parse_study line of
        None \<Rightarrow> Raised IndexError d
      | Some s \<Rightarrow> mdm_load_studies (d\<lparr>mdm_studies := mdm_studies d @ [s]\<rparr>) ls)"

definition mdm_load :: "mdm_design_matrix \<Rightarrow> string \<Rightarrow> mdm_design_matrix outcome" where
  "mdm_load d file =
     (let lines = readlines file in
      case find_counter (\<lambda>l. startswith l [CHR 0x22]) 0 lines of
        None \<Rightarrow> Raised UnboundLocalError mdm_clear
      | Some counter \<Rightarrow>
          mdm_load_studies
            (mdm_clear\<lparr>mdm_header :=
               mdm_load_header (mdm_header mdm_clear) (py_slice_to lines (int counter - 1))\<rparr>)
            (drop counter lines))"

text \<open>
  The state of the header that the first study added leaves behind: a positive count and
  the type of functional data that goes with the number of its data files.
\<close>

definition mdm_typed :: "bool \<Rightarrow> mdm_design_matrix \<Rightarrow> bool" where
  "mdm_typed b m = (\<exists>n>0. od_get (mdm_header m) ''NrOfStudies'' = Some (HInt n) \<and>
      od_get (mdm_header m) ''TypeOfFunctionalData'' = Some (HStr (if b then ''MTC'' else ''VTC'')))"

section \<open>prt: stimulation protocols\<close>

text \<open>
  A \<open>Condition\<close> has a name, the array of its intervals and a colour. The array is
  built by \<open>np.array(data, dtype=object)\<close>: its cells are Python numbers, integers
  (unbounded) or floats, the floats being the fractional weights. The model is generic
  in the type \<open>'c\<close> of the cells. It uses of that type what the source uses of the
  numbers, each where the source does: the number one, subtraction, multiplication,
  addition, and the order, which is linear as Python's is on integers and on floats
  other than nan. The type \<open>int\<close> is the type of the cells of a protocol whose numbers
  are all integers.

  The array is two-dimensional exactly when there is a row and all rows have one
  length; an empty or ragged list gives a one-dimensional array, on which
  \<open>data.shape[1]\<close> raises \<open>IndexError\<close>. Into a two-dimensional array numpy
  copies the cells; a one-dimensional array holds the row lists it was given. The model
  holds the rows by value: a row list is taken to be in one array and there once, as
  the row lists are that \<open>load\<close> builds.
\<close>

record 'c condition =
  condition_name :: string
  condition_data :: "'c list list"
  condition_colour :: "int list"

text \<open>\<open>Condition(name, data, colour)\<close> with the colour given as a sequence.\<close>

definition Condition :: "string \<Rightarrow> 'c list list \<Rightarrow> int list \<Rightarrow> 'c condition" where
  "Condition name data colour =
     \<lparr>condition_name = name, condition_data = data, condition_colour = take 3 colour\<rparr>"

text \<open>\<open>data.shape[1]\<close>; \<open>None\<close> is the \<open>IndexError\<close>.\<close>

definition data_shape1 :: "'c list list \<Rightarrow> nat option" where
  "data_shape1 d =
     (case d of
        [] \<Rightarrow> None
      | r # rs \<Rightarrow> if list_all (\<lambda>x. length x = length r) rs then Some (length r) else None)"

text \<open>\<open>np.append(data, np.array([data.shape[0] * [1]]).T, axis=1)\<close>.\<close>

definition append_unit_column :: "'c::one list list \<Rightarrow> 'c list list" where
  "append_unit_column d = map (\<lambda>r. r @ [1]) d"

text \<open>
  What Python does with the numbers beyond arithmetic is taken as a parameter where the
  source calls it: the cell that an integer literal gives and \<open>float(s)\<close> of a string
  (\<open>None\<close> is its \<open>ValueError\<close>), for the loader; \<open>int(x)\<close> of a number, which drops
  the fractional part of a float and raises for inf and nan, for the conversion of the
  time unit; \<open>str(x)\<close> of a number, for \<open>save\<close>.
\<close>

record 'c literals =
  int_cell :: "int \<Rightarrow> 'c"
  float_cell :: "string \<Rightarrow> 'c option"

text \<open>
  For cells that are all integers: an integer literal is its value, \<open>int(x)\<close> is
  \<open>x\<close>, \<open>str(x)\<close> is the decimal numeral. What \<open>float\<close> does stays a parameter.
\<close>

definition int_literals :: "(string \<Rightarrow> int option) \<Rightarrow> int literals" where
  "int_literals fl = \<lparr>int_cell = (\<lambda>i. i), float_cell = fl\<rparr>"

definition int_of_int :: "int \<Rightarrow> error + int" where
  "int_of_int x = Inr x"

text \<open>
  For the examples with fractional cells the cells are rationals. On fractions that a
  float holds exactly, and as long as the results are such fractions, the arithmetic of
  floats is the arithmetic of the rationals, and \<open>int(x)\<close> drops the fractional part.
\<close>

definition int_of_fraction :: "rat \<Rightarrow> error + rat" where
  "int_of_fraction q = Inr (of_int (if q < 0 then \<lceil>q\<rceil> else \<lfloor>q\<rfloor>))"


text \<open>
  \<open>Condition.__add__\<close>. \<open>np.concatenate\<close> wants two arrays of the same number of
  dimensions and, for two dimensions, of the same number of columns; \<open>np.sort(..., axis=0)\<close>
  sorts a two-dimensional array along its first axis, that is, every column by itself,
  and a one-dimensional array of rows by Python's order on lists.
\<close>

definition sort_axis0 :: "nat \<Rightarrow> 'c::linorder list list \<Rightarrow> 'c list list" where
  "sort_axis0 k d =
     (let cols = map (\<lambda>j. sort (map (\<lambda>r. r ! j) d)) [0..<k]
      in map (\<lambda>i. map (\<lambda>c. c ! i) cols) [0..<length d])"

fun list_le :: "'c::linorder list \<Rightarrow> 'c list \<Rightarrow> bool" where
  "list_le [] ys = True"
| "list_le (x # xs) [] = False"
| "list_le (x # xs) (y # ys) = (x < y \<or> (x = y \<and> list_le xs ys))"

fun insert_row :: "'c::linorder list \<Rightarrow> 'c list list \<Rightarrow> 'c list list" where
  "insert_row r [] = [r]"
| "insert_row r (x # xs) = (if list_le r x then r # x # xs else x # insert_row r xs)"

definition sort_rows :: "'c::linorder list list \<Rightarrow> 'c list list" where
  "sort_rows d = foldr insert_row d []"

definition concatenate_sorted ::
  "'c::linorder list list \<Rightarrow> 'c list list \<Rightarrow> error + 'c list list" where
  "concatenate_sorted a b =
     (case (data_shape1 a, data_shape1 b) of
        (Some k, Some l) \<Rightarrow> if k = l then Inr (sort_axis0 k (a @ b)) else Inl ValueError
      | (None, None) \<Rightarrow> Inr (sort_rows (a @ b))
      | _ \<Rightarrow> Inl ValueError)"

definition condition_add :: "'c::linorder condition \<Rightarrow> 'c condition \<Rightarrow> error + 'c condition" where
  "condition_add a b =
     (case concatenate_sorted (condition_data a) (condition_data b) of
        Inl e \<Rightarrow> Inl e
      | Inr d \<Rightarrow>
          if length (condition_colour a) < 3 \<or> length (condition_colour b) < 3
          then Inl IndexError
          else Inr (Condition (condition_name a @ ''+'' @ condition_name b) d
                      [min (condition_colour a ! 0 + condition_colour b ! 0) 255,
                       min (condition_colour a ! 1 + condition_colour b ! 1) 255,
                       min (condition_colour a ! 2 + condition_colour b ! 2) 255]))"

text \<open>
  The protocol holds references to \<open>Condition\<close> objects, and its methods change those
  objects in place. The state is the header, the list \<open>self._conditions\<close> of addresses,
  and the store of the objects, an address being an index into it.
\<close>

record 'c protocol =
  prt_header :: odict
  prt_conditions :: "nat list"
  prt_heap :: "'c condition list"

definition prt_clear :: "'c protocol \<Rightarrow> 'c protocol" where
  "prt_clear p =
     p\<lparr>prt_header := [(''FileVersion'', HInt 2),
                      (''ResolutionOfTime'', HStr ''Volumes''),
                      (''Experiment'', HStr ''untitled''),
                      (''BackgroundColor'', HList [0, 0, 0]),
                      (''TextColor'', HList [255, 255, 255]),
                      (''TimeCourseColor'', HList [255, 255, 255]),
                      (''TimeCourseThick'', HInt 3),
                      (''ReferenceFuncColor'', HList [0, 0, 80]),
                      (''ReferenceFuncThick'', HInt 3),
                      (''ParametricWeights'', HInt 0),
                      (''NrOfConditions'', HInt 0)],
       prt_conditions := []\<rparr>"

definition prt_empty :: "'c protocol" where
  "prt_empty = prt_clear \<lparr>prt_header = [], prt_conditions = [], prt_heap = []\<rparr>"

text \<open>Creating a \<open>Condition\<close> object: the store grows, the new address is returned.\<close>

definition new_condition :: "'c protocol \<Rightarrow> 'c condition \<Rightarrow> 'c protocol \<times> nat" where
  "new_condition p c = (p\<lparr>prt_heap := prt_heap p @ [c]\<rparr>, length (prt_heap p))"

text \<open>The conditions of the protocol, read through the references.\<close>

definition conditions :: "'c protocol \<Rightarrow> 'c condition list" where
  "conditions p = map (\<lambda>a. prt_heap p ! a) (prt_conditions p)"

text \<open>
  \<open>StimulationProtocol.add_condition\<close> (src/brainvoyagertools/prt.py). The loop over
  the conditions held stops with \<open>IndexError\<close> at one whose array is not two-dimensional.
\<close>

fun retrofit :: "nat list \<Rightarrow> 'c::one condition list \<Rightarrow> 'c condition list \<times> error option" where
  "retrofit [] hp = (hp, None)"
| "retrofit (a # as) hp =
     (case data_shape1 (condition_data (hp ! a)) of
        None \<Rightarrow> (hp, Some IndexError)
      | Some k \<Rightarrow>
          retrofit as
            (if k < 3
             then hp[a := (hp ! a)\<lparr>condition_data := append_unit_column (condition_data (hp ! a))\<rparr>]
             else hp))"

definition append_and_count :: "'c protocol \<Rightarrow> nat \<Rightarrow> 'c protocol outcome" where
  "append_and_count p a =
     (let p1 = p\<lparr>prt_conditions := prt_conditions p @ [a]\<rparr> in
      case od_get (prt_header p1) ''NrOfConditions'' of
        None \<Rightarrow> Raised KeyError p1
      | Some (HInt n) \<Rightarrow>
          Done (p1\<lparr>prt_header := od_set (prt_header p1) ''NrOfConditions'' (HInt (n + 1))\<rparr>)
      | Some v \<Rightarrow> Raised TypeError p1)"

definition weights_on :: "odict \<Rightarrow> error + bool" where
  "weights_on h =
     (case od_get h ''FileVersion'' of
        None \<Rightarrow> Inl KeyError
      | Some fv \<Rightarrow>
          if fv = HInt 3 then
            (case od_get h ''ParametricWeights'' of
               None \<Rightarrow> Inl KeyError
             | Some pw \<Rightarrow> Inr (pw = HInt 1))
          else Inr False)"

definition add_condition :: "'c::one protocol \<Rightarrow> nat \<Rightarrow> 'c protocol outcome" where
  "add_condition p a =
     (case data_shape1 (condition_data (prt_heap p ! a)) of
        None \<Rightarrow> Raised IndexError p
      | Some k \<Rightarrow>
          if k > 2 then
            (let p1 = p\<lparr>prt_header :=
                         od_set (od_set (prt_header p) ''FileVersion'' (HInt 3))
                           ''ParametricWeights'' (HInt 1)\<rparr>
             in case retrofit (prt_conditions p1) (prt_heap p1) of
                  (hp, Some e) \<Rightarrow> Raised e (p1\<lparr>prt_heap := hp\<rparr>)
                | (hp, None) \<Rightarrow> append_and_count (p1\<lparr>prt_heap := hp\<rparr>) a)
          else
            (case weights_on (prt_header p) of
               Inl e \<Rightarrow> Raised e p
             | Inr True \<Rightarrow>
                 append_and_count
                   (p\<lparr>prt_heap := (prt_heap p)[a := (prt_heap p ! a)
                         \<lparr>condition_data := append_unit_column (condition_data (prt_heap p ! a))\<rparr>]\<rparr>)
                   a
             | Inr False \<Rightarrow> append_and_count p a))"

text \<open>
  \<open>StimulationProtocol.add_condition\<close> of the module src/prt/__init__.py. Its loop is
  \<open>for condition in self.conditions\<close>: it rebinds the parameter, so that the
  reference appended after the loop is the last one the loop visited. That module builds
  the array of a condition by \<open>np.array(data)\<close>, which for rows of integers of one
  length has the shape and the cells of the array above.
\<close>

definition add_condition_legacy :: "'c::one protocol \<Rightarrow> nat \<Rightarrow> 'c protocol outcome" where
  "add_condition_legacy p a =
     (case data_shape1 (condition_data (prt_heap p ! a)) of
        None \<Rightarrow> Raised IndexError p
      | Some k \<Rightarrow>
          if k > 2 then
            (let p1 = p\<lparr>prt_header :=
                         od_set (od_set (prt_header p) ''FileVersion'' (HInt 3))
                           ''ParametricWeights'' (HInt 1)\<rparr>
             in case retrofit (prt_conditions p1) (prt_heap p1) of
                  (hp, Some e) \<Rightarrow> Raised e (p1\<lparr>prt_heap := hp\<rparr>)
                | (hp, None) \<Rightarrow>
                    append_and_count (p1\<lparr>prt_heap := hp\<rparr>)
                      (if prt_conditions p1 = [] then a else last (prt_conditions p1)))
          else
            (case weights_on (prt_header p) of
               Inl e \<Rightarrow> Raised e p
             | Inr True \<Rightarrow>
                 append_and_count
                   (p\<lparr>prt_heap := (prt_heap p)[a := (prt_heap p ! a)
                         \<lparr>condition_data := append_unit_column (condition_data (prt_heap p ! a))\<rparr>]\<rparr>)
                   a
             | Inr False \<Rightarrow> append_and_count p a))"

text \<open>
  \<open>convert_to_msec(tr)\<close>. The inner loop writes \<open>int((intervall[0] - 1) * tr)\<close> to
  \<open>intervall[0]\<close> and then \<open>int(intervall[1] * tr)\<close> to \<open>intervall[1]\<close>. A row too
  short for the read raises \<open>IndexError\<close>, and \<open>int\<close> may raise, with the rows before,
  and the cell before, already converted. The first parameter is \<open>int\<close>.
\<close>

fun convert_rows ::
  "('c \<Rightarrow> error + 'c) \<Rightarrow> 'c::{minus,times,one} \<Rightarrow> 'c list list \<Rightarrow> 'c list list \<times> error option" where
  "convert_rows to_int tr [] = ([], None)"
| "convert_rows to_int tr ([] # rs) = ([] # rs, Some IndexError)"
| "convert_rows to_int tr ((x # ys) # rs) =
     (case to_int ((x - 1) * tr) of
        Inl e \<Rightarrow> ((x # ys) # rs, Some e)
      | Inr x' \<Rightarrow>
          (case ys of
             [] \<Rightarrow> ([x'] # rs, Some IndexError)
           | y # zs \<Rightarrow>
               (case to_int (y * tr) of
                  Inl e \<Rightarrow> ((x' # y # zs) # rs, Some e)
                | Inr y' \<Rightarrow>
                    (case convert_rows to_int tr rs of
                       (rs', e) \<Rightarrow> ((x' # y' # zs) # rs', e)))))"

fun convert_conditions ::
  "('c \<Rightarrow> error + 'c) \<Rightarrow> 'c::{minus,times,one} \<Rightarrow> nat list \<Rightarrow> 'c condition list
     \<Rightarrow> 'c condition list \<times> error option" where
  "convert_conditions to_int tr [] hp = (hp, None)"
| "convert_conditions to_int tr (a # as) hp =
     (case convert_rows to_int tr (condition_data (hp ! a)) of
        (d, Some e) \<Rightarrow> (hp[a := (hp ! a)\<lparr>condition_data := d\<rparr>], Some e)
      | (d, None) \<Rightarrow> convert_conditions to_int tr as (hp[a := (hp ! a)\<lparr>condition_data := d\<rparr>]))"

definition convert_to_msec ::
  "('c \<Rightarrow> error + 'c) \<Rightarrow> 'c::{minus,times,one} protocol \<Rightarrow> 'c \<Rightarrow> 'c protocol outcome" where
  "convert_to_msec to_int p tr =
     (case od_get (prt_header p) ''ResolutionOfTime'' of
        None \<Rightarrow> Raised KeyError p
      | Some u \<Rightarrow>
          if u = HStr ''msec'' then Done p
          else
            (case convert_conditions to_int tr (prt_conditions p) (prt_heap p) of
               (hp, Some e) \<Rightarrow> Raised e (p\<lparr>prt_heap := hp\<rparr>)
             | (hp, None) \<Rightarrow>
                 Done (p\<lparr>prt_heap := hp,
                         prt_header := od_set (prt_header p) ''ResolutionOfTime'' (HStr ''msec'')\<rparr>)))"

text \<open>
  The derived views. An event is a condition's name followed by the cells of one row;
  \<open>event_list\<close> takes every row of every condition, in order;
  \<open>sorted(events, key=lambda x: x[1])\<close> is a stable sort on the first cell and raises
  \<open>IndexError\<close> at an event without one.
\<close>

type_synonym 'c event = "string \<times> 'c list"

definition event_list :: "'c::linorder protocol \<Rightarrow> error + 'c event list" where
  "event_list p =
     (let events = concat (map (\<lambda>c. map (\<lambda>r. (condition_name c, r)) (condition_data c))
                            (conditions p))
      in if list_ex (\<lambda>e. snd e = []) events then Inl IndexError
         else Inr (sort_key (\<lambda>e. hd (snd e)) events))"

definition time_units :: "'c protocol \<Rightarrow> hval option" where
  "time_units p = od_get (prt_header p) ''ResolutionOfTime''"

definition event_durations :: "'c::{linorder,minus,plus,one} protocol \<Rightarrow> error + 'c list" where
  "event_durations p =
     (case time_units p of
        None \<Rightarrow> Inl KeyError
      | Some u \<Rightarrow>
          (case event_list p of
             Inl e \<Rightarrow> Inl e
           | Inr evs \<Rightarrow>
               if list_ex (\<lambda>e. length (snd e) < 2) evs then Inl IndexError
               else if u = HStr ''msec'' then Inr (map (\<lambda>e. snd e ! 1 - snd e ! 0) evs)
               else Inr (map (\<lambda>e. snd e ! 1 - snd e ! 0 + 1) evs)))"

text \<open>
  \<open>condition_durations\<close>: \<open>c.data[:,1] - c.data[:,0]\<close>, with \<open>+ 1\<close> when the time
  unit is not msec, needs a two-dimensional array with two columns at least.
\<close>

definition column_difference :: "bool \<Rightarrow> 'c::{minus,plus,one} condition \<Rightarrow> 'c list option" where
  "column_difference msec c =
     (case data_shape1 (condition_data c) of
        None \<Rightarrow> None
      | Some n \<Rightarrow>
          if n < 2 then None
          else if msec then Some (map (\<lambda>r. r ! 1 - r ! 0) (condition_data c))
          else Some (map (\<lambda>r. r ! 1 - r ! 0 + 1) (condition_data c)))"

definition condition_durations :: "'c::{minus,plus,one} protocol \<Rightarrow> error + 'c list list" where
  "condition_durations p =
     (case time_units p of
        None \<Rightarrow> Inl KeyError
      | Some u \<Rightarrow>
          (let ds = map (column_difference (u = HStr ''msec'')) (conditions p)
           in if list_ex (\<lambda>d. d = None) ds then Inl IndexError else Inr (map the ds)))"

text \<open>
  \<open>save\<close> of a protocol: \<open>_format_header\<close>, \<open>Condition.__str__\<close> and
  \<open>_format_conditions\<close>. The header entry at position 9 is written only when
  \<open>FileVersion\<close> is 3; a list value is unpacked into three numbers (\<open>ValueError\<close>
  otherwise); \<open>_format_data\<close> pads every cell to the width of the widest offset. The
  parameter of the functions that write cells is \<open>str\<close>.
\<close>

fun prt_format_value :: "hval \<Rightarrow> error + string" where
  "prt_format_value (HList [r, g, b]) = Inr (str_int r @ '' '' @ str_int g @ '' '' @ str_int b)"
| "prt_format_value (HList xs) = Inl ValueError"
| "prt_format_value v = Inr (format_hval v)"

definition prt_writes_entry :: "odict \<Rightarrow> nat \<Rightarrow> error + bool" where
  "prt_writes_entry h c =
     (if c \<noteq> 9 then Inr True
      else (case od_get h ''FileVersion'' of
              None \<Rightarrow> Inl KeyError
            | Some fv \<Rightarrow> Inr (fv = HInt 3)))"

fun prt_format_header_loop :: "odict \<Rightarrow> nat \<Rightarrow> odict \<Rightarrow> error + string" where
  "prt_format_header_loop full c [] = Inr []"
| "prt_format_header_loop full c ((x, v) # h) =
     (case prt_writes_entry full c of
        Inl e \<Rightarrow> Inl e
      | Inr False \<Rightarrow> prt_format_header_loop full (Suc c) h
      | Inr True \<Rightarrow>
          (case prt_format_value v of
             Inl e \<Rightarrow> Inl e
           | Inr val \<Rightarrow>
               (case prt_format_header_loop full (Suc c) h of
                  Inl e \<Rightarrow> Inl e
                | Inr rest \<Rightarrow>
                    Inr (ljust 20 (x @ '':'') @ val
                         @ (if int c < int (length full) - 1 then [CHR 0x0A] else [])
                         @ (if c \<in> set [0, 1, 2, 8, 9] then [CHR 0x0A] else [])
                         @ rest))))"

definition prt_format_header :: "'c protocol \<Rightarrow> error + string" where
  "prt_format_header p = prt_format_header_loop (prt_header p) 0 (prt_header p)"

definition format_data :: "('c \<Rightarrow> string) \<Rightarrow> 'c list list \<Rightarrow> error + string" where
  "format_data str d =
     (if list_ex (\<lambda>r. length r < 2) d then Inl IndexError
      else
        (let mx = foldl max 0 (map (\<lambda>r. length (str (r ! 1))) d)
         in Inr (py_join [CHR 0x0A]
                   (map (\<lambda>r. '' '' @ py_join ''  '' (map (\<lambda>x. rjust mx (str x)) r)) d))))"

definition format_colour :: "'c condition \<Rightarrow> string" where
  "format_colour c = ''Color: '' @ py_join '' '' (map str_int (condition_colour c))"

definition condition_str :: "('c \<Rightarrow> string) \<Rightarrow> 'c condition \<Rightarrow> error + string" where
  "condition_str str c =
     (case format_data str (condition_data c) of
        Inl e \<Rightarrow> Inl e
      | Inr d \<Rightarrow>
          Inr (condition_name c @ [CHR 0x0A] @ str_int (int (length (condition_data c)))
               @ [CHR 0x0A] @ d @ [CHR 0x0A] @ format_colour c))"

fun prt_format_conditions :: "('c \<Rightarrow> string) \<Rightarrow> 'c condition list \<Rightarrow> error + string" where
  "prt_format_conditions str [] = Inr []"
| "prt_format_conditions str [c] = condition_str str c"
| "prt_format_conditions str (c # c' # cs) =
     (case condition_str str c of
        Inl e \<Rightarrow> Inl e
      | Inr t \<Rightarrow>
          (case prt_format_conditions str (c' # cs) of
             Inl e \<Rightarrow> Inl e
           | Inr rest \<Rightarrow> Inr (t @ [CHR 0x0A, CHR 0x0A] @ rest)))"

definition prt_save :: "('c \<Rightarrow> string) \<Rightarrow> 'c protocol \<Rightarrow> error + string" where
  "prt_save str p =
     (case prt_format_header p of
        Inl e \<Rightarrow> Inl e
      | Inr h \<Rightarrow>
          (case prt_format_conditions str (conditions p) of
             Inl e \<Rightarrow> Inl e
           | Inr cs \<Rightarrow> Inr ([CHR 0x0A] @ h @ [CHR 0x0A] @ [CHR 0x0A] @ cs)))"

text \<open>
  \<open>load\<close> of a protocol (src/brainvoyagertools/prt.py). The lines are the file's,
  with runs of equal lines collapsed (\<open>groupby\<close>), tabs replaced, stripped, and blank
  lines dropped. The method has no call of \<open>clear\<close>: it starts from the state it finds.
\<close>

definition replace_tabs :: "string \<Rightarrow> string" where
  "replace_tabs s = concat (map (\<lambda>c. if c = CHR 0x09 then ''  '' else [c]) s)"

definition prt_lines :: "string \<Rightarrow> string list" where
  "prt_lines file =
     filter (\<lambda>l. strip l \<noteq> [])
       (map (\<lambda>x. strip (replace_tabs x)) (remdups_adj (readlines file)))"

definition all_ints :: "string list \<Rightarrow> int list option" where
  "all_ints ts =
     (if list_all (\<lambda>t. py_int t \<noteq> None) ts then Some (map (\<lambda>t. the (py_int t)) ts) else None)"

definition prt_header_value :: "string \<Rightarrow> hval" where
  "prt_header_value raw =
     (let v = split_char CHR '' '' (strip raw) in
      if length v > 1 then
        (case all_ints v of Some xs \<Rightarrow> HList xs | None \<Rightarrow> HStr (py_join '' '' v))
      else
        (case py_int (v ! 0) of Some i \<Rightarrow> HInt i | None \<Rightarrow> HStr (v ! 0)))"

fun prt_load_header :: "odict \<Rightarrow> string list \<Rightarrow> odict outcome" where
  "prt_load_header h [] = Done h"
| "prt_load_header h (line # ls) =
     (case split_first CHR '':'' line of
        [k, raw] \<Rightarrow> prt_load_header (od_set h (strip k) (prt_header_value raw)) ls
      | _ \<Rightarrow> Raised IndexError h)"

text \<open>
  \<open>int_or_float\<close>: \<open>int(x)\<close>, and \<open>float(x)\<close> when that raises; \<open>None\<close> is the
  \<open>ValueError\<close> of \<open>float\<close>. A row is
  \<open>[int_or_float(i) for i in lines[x].split(" ") if i]\<close>.
\<close>

definition int_or_float :: "'c literals \<Rightarrow> string \<Rightarrow> 'c option" where
  "int_or_float lit x =
     (case py_int x of Some i \<Rightarrow> Some (int_cell lit i) | None \<Rightarrow> float_cell lit x)"

definition prt_parse_row :: "'c literals \<Rightarrow> string \<Rightarrow> 'c list option" where
  "prt_parse_row lit line =
     (let ts = filter (\<lambda>t. t \<noteq> []) (split_char CHR '' '' line) in
      if list_all (\<lambda>t. int_or_float lit t \<noteq> None) ts
      then Some (map (\<lambda>t. the (int_or_float lit t)) ts) else None)"

text \<open>The rows \<open>lines[x]\<close> for \<open>x\<close> in a range of the given length.\<close>

fun prt_parse_rows :: "'c literals \<Rightarrow> string list \<Rightarrow> int \<Rightarrow> nat \<Rightarrow> error + 'c list list" where
  "prt_parse_rows lit lines x 0 = Inr []"
| "prt_parse_rows lit lines x (Suc k) =
     (case py_index lines x of
        None \<Rightarrow> Inl IndexError
      | Some l \<Rightarrow>
          (case prt_parse_row lit l of
             None \<Rightarrow> Inl ValueError
           | Some r \<Rightarrow>
               (case prt_parse_rows lit lines (x + 1) k of
                  Inl e \<Rightarrow> Inl e
                | Inr rs \<Rightarrow> Inr (r # rs))))"

text \<open>
  The body of the \<open>try\<close> up to the call of \<open>add_condition\<close>: the name, the declared
  count, that many rows, and the colour line after them. The second component is the
  binding of \<open>number_events\<close> when the body ends (\<open>None\<close>: unbound).
\<close>

definition prt_parse_block ::
  "'c literals \<Rightarrow> string list \<Rightarrow> int \<Rightarrow> int option \<Rightarrow> (error + 'c condition) \<times> int option" where
  "prt_parse_block lit lines counter ne =
     (case py_index lines counter of
        None \<Rightarrow> (Inl IndexError, ne)
      | Some l0 \<Rightarrow>
          (case py_index lines (counter + 1) of
             None \<Rightarrow> (Inl IndexError, ne)
           | Some l1 \<Rightarrow>
               (case py_int l1 of
                  None \<Rightarrow> (Inl ValueError, ne)
                | Some n \<Rightarrow>
                    (case prt_parse_rows lit lines (counter + 2) (nat n) of
                       Inl e \<Rightarrow> (Inl e, Some n)
                     | Inr data \<Rightarrow>
                         (case py_index lines (counter + 2 + n) of
                            None \<Rightarrow> (Inl IndexError, Some n)
                          | Some lc \<Rightarrow>
                              (case all_ints (split_char CHR '' '' (drop 7 lc)) of
                                 None \<Rightarrow> (Inl ValueError, Some n)
                               | Some colour \<Rightarrow>
                                   (Inr (Condition (strip l0) data colour), Some n)))))))"

text \<open>
  \<open>except IndexError: pass\<close> around a call, and one pass of the loop body: the
  \<open>try\<close> with that \<open>except\<close>.
\<close>

fun swallow_IndexError :: "'s outcome \<Rightarrow> 's outcome" where
  "swallow_IndexError (Done s) = Done s"
| "swallow_IndexError (Raised e s) = (if e = IndexError then Done s else Raised e s)"

definition prt_try_block ::
  "'c::one literals \<Rightarrow> string list \<Rightarrow> int \<Rightarrow> int option \<Rightarrow> 'c protocol
     \<Rightarrow> 'c protocol outcome \<times> int option" where
  "prt_try_block lit lines counter ne p =
     (case prt_parse_block lit lines counter ne of
        (Inl e, ne') \<Rightarrow> (swallow_IndexError (Raised e p), ne')
      | (Inr c, ne') \<Rightarrow>
          (case new_condition p c of
             (p1, a) \<Rightarrow> (swallow_IndexError (add_condition p1 a), ne')))"

fun prt_load_blocks ::
  "'c::one literals \<Rightarrow> nat \<Rightarrow> string list \<Rightarrow> int \<Rightarrow> int option \<Rightarrow> 'c protocol
     \<Rightarrow> 'c protocol outcome" where
  "prt_load_blocks lit 0 lines counter ne p = Done p"
| "prt_load_blocks lit (Suc i) lines counter ne p =
     (case prt_try_block lit lines counter ne p of
        (Done p', None) \<Rightarrow> Raised UnboundLocalError p'
      | (Done p', Some n) \<Rightarrow> prt_load_blocks lit i lines (counter + n + 3) (Some n) p'
      | (Raised e p', ne') \<Rightarrow> Raised e p')"

definition prt_load :: "'c::one literals \<Rightarrow> 'c protocol \<Rightarrow> string \<Rightarrow> 'c protocol outcome" where
  "prt_load lit p file =
     (let lines = prt_lines file in
      case find_counter (\<lambda>l. startswith l ''NrOfConditions'') 0 lines of
        None \<Rightarrow> Raised UnboundLocalError p
      | Some counter \<Rightarrow>
          (case prt_load_header (prt_header p) (take counter lines) of
             Raised e h \<Rightarrow> Raised e (p\<lparr>prt_header := h\<rparr>)
           | Done h \<Rightarrow>
               (case split_first CHR '':'' (lines ! counter) of
                  [k, raw] \<Rightarrow>
                    (case py_int (strip raw) of
                       None \<Rightarrow> Raised ValueError (p\<lparr>prt_header := h\<rparr>)
                     | Some conds \<Rightarrow>
                         prt_load_blocks lit (nat conds) lines (int counter + 1) None
                           (p\<lparr>prt_header := h\<rparr>))
                | _ \<Rightarrow> Raised IndexError (p\<lparr>prt_header := h\<rparr>))))"

section \<open>voi: volumes of interest\<close>
















section \<open>Example protocols\<close>

text \<open>
  A protocol in volumes with the conditions B: [(5, 6)] and A: [(1, 3)], built by the
  calls \<open>p = StimulationProtocol(); p.add_condition(Condition("B", [[5, 6]], [0, 0, 255]));
  p.add_condition(Condition("A", [[1, 3]], [255, 0, 0]))\<close>.
\<close>

definition prt_example :: "int protocol" where
  "prt_example =
     (let (p1, b) = new_condition prt_empty (Condition ''B'' [[5, 6]] [0, 0, 255]);
          p2 = state_of (add_condition p1 b);
          (p3, a) = new_condition p2 (Condition ''A'' [[1, 3]] [255, 0, 0])
      in state_of (add_condition p3 a))"

text \<open>
  A protocol in volumes whose conditions interleave in time, B: [(5, 6), (10, 12)] and
  A: [(1, 3), (7, 9)], built by the same calls.
\<close>

definition prt_interleaved :: "int protocol" where
  "prt_interleaved =
     (let (p1, b) = new_condition prt_empty (Condition ''B'' [[5, 6], [10, 12]] [0, 0, 255]);
          p2 = state_of (add_condition p1 b);
          (p3, a) = new_condition p2 (Condition ''A'' [[1, 3], [7, 9]] [255, 0, 0])
      in state_of (add_condition p3 a))"

text \<open>
  A protocol in volumes with one condition whose interval has the fractional weight 0.5,
  A: [(2, 4, 0.5)], built by \<open>p = StimulationProtocol();
  p.add_condition(Condition("A", [[2, 4, 0.5]], [255, 0, 0]))\<close>.
\<close>

definition prt_weighted :: "rat protocol" where
  "prt_weighted =
     (let (p1, a) = new_condition prt_empty (Condition ''A'' [[2, 4, 1 / 2]] [255, 0, 0])
      in state_of (add_condition p1 a))"

text \<open>
  What the retrofit makes of a condition.
\<close>

definition widened :: "'c::one condition \<Rightarrow> 'c condition" where
  "widened c = c\<lparr>condition_data := append_unit_column (condition_data c)\<rparr>"

text \<open>
  A single-subject design matrix whose counter is the number of its predictors and
  whose predictors all have the length the header records.
\<close>

definition sdm_consistent :: "'a sdm_design_matrix \<Rightarrow> bool" where
  "sdm_consistent d =
     (sdm_NrOfPredictors (sdm_hdr d) = int (length (sdm_predictors d)) \<and>
      list_all (\<lambda>p. int (length (predictor_data p)) = sdm_NrOfDataPoints (sdm_hdr d))
        (sdm_predictors d))"

section \<open>Properties of the contrasts definition\<close>

lemma add_contrast_body: "ctr_contrasts (state_of (add_contrast d c)) = ctr_contrasts d"
  by (simp add: add_contrast_def Let_def)

text \<open>
  Claim C5. A successful add puts the record into the body and raises the header
  counter by one, so that the counter equals the number of records. In the contrasts
  definition the first add to an empty document returns normally and sets
  \<open>NrOfContrasts\<close> to 1, and the body still has no record.
\<close>

theorem C5_add_contrast_drops_record:
  "add_contrast ctr_clear \<lparr>contrast_name = ''A'', contrast_data = [1, -1]\<rparr> =
     Done \<lparr>ctr_hdr = \<lparr>ctr_FileVersion = 1, ctr_NrOfContrasts = 1, ctr_NrOfValues = 2\<rparr>,
           ctr_contrasts = []\<rparr>"
  by (simp add: add_contrast_def ctr_clear_def)

section \<open>Round trip of the mdm format\<close>

text \<open>
  Claim C1. For every format, saving a document loaded from a file that \<open>save\<close>
  wrote gives the bytes of that file back. For the mdm format this fails on a document
  with one study: the header line \<open>NrOfStudies\<close> directly precedes the first study
  line, \<open>load\<close> reads the header from \<open>lines[:counter-1]\<close> and so skips it, and the
  loaded document keeps the count 0 of \<open>clear\<close>; saving it writes another file.
\<close>

theorem C1_mdm_roundtrip_loses_count:
  "(let d = state_of (add_study mdm_clear (Study (OneFile ''a.vtc'') ''a.sdm''));
        f = mdm_save d;
        r = mdm_load mdm_clear f
    in raised r = None
       \<and> od_get (mdm_header d) ''NrOfStudies'' = Some (HInt 1)
       \<and> od_get (mdm_header (state_of r)) ''NrOfStudies'' = Some (HInt 0)
       \<and> mdm_studies (state_of r) = mdm_studies d
       \<and> mdm_save (state_of r) \<noteq> f)"
  by code_simp

section \<open>The data accessor\<close>

lemma data_loop_glue:
  "0 < c \<Longrightarrow> shape0 m = n \<Longrightarrow> length (rows m) = n \<Longrightarrow> \<forall>x\<in>set xs. length x = n \<Longrightarrow>
   data_loop c (Some m) xs =
     Inr (Some \<lparr>shape0 = n, shape1 = shape1 m + length xs,
                 rows = map (\<lambda>i. rows m ! i @ map (\<lambda>x. x ! i) xs) [0..<n]\<rparr>)"
proof (induction xs arbitrary: c m)
  case Nil
  have "map (\<lambda>i. rows m ! i) [0..<n] = rows m"
    using Nil.prems(3) map_nth[of "rows m"] by simp
  then show ?case using Nil.prems by simp
next
  case (Cons x xs)
  let ?m' = "\<lparr>shape0 = n, shape1 = shape1 m + 1, rows = map2 (@) (rows m) (map (\<lambda>v. [v]) x)\<rparr>"
  have lx: "length x = n" using Cons.prems by simp
  have app: "np_append_axis1 m (column_array x) = Inr ?m'"
    using Cons.prems lx by (simp add: np_append_axis1_def column_array_def)
  have rows': "rows ?m' = map (\<lambda>i. rows m ! i @ [x ! i]) [0..<n]"
    using Cons.prems lx by (auto intro!: nth_equalityI)
  have "data_loop (Suc c) (Some ?m') xs =
     Inr (Some \<lparr>shape0 = n, shape1 = shape1 ?m' + length xs,
                 rows = map (\<lambda>i. rows ?m' ! i @ map (\<lambda>x. x ! i) xs) [0..<n]\<rparr>)"
    by (rule Cons.IH) (use Cons.prems lx in auto)
  then show ?case using Cons.prems(1) app rows' by simp
qed

lemma data_property_Nil: "data_property [] = Inl UnboundLocalError"
  by (simp add: data_property_def)

lemma data_property_same_length:
  assumes "series \<noteq> []" and "\<forall>x\<in>set series. length x = n"
  shows "data_property series =
     Inr \<lparr>shape0 = n, shape1 = length series,
          rows = map (\<lambda>i. map (\<lambda>x. x ! i) series) [0..<n]\<rparr>"
proof -
  obtain x xs where s: "series = x # xs" using assms(1) by (cases series) auto
  have "data_loop (Suc 0) (Some (column_array x)) xs =
     Inr (Some \<lparr>shape0 = n, shape1 = shape1 (column_array x) + length xs,
                 rows = map (\<lambda>i. rows (column_array x) ! i @ map (\<lambda>x. x ! i) xs) [0..<n]\<rparr>)"
    by (rule data_loop_glue) (use assms(2) s in \<open>auto simp: column_array_def\<close>)
  moreover have "map (\<lambda>i. rows (column_array x) ! i @ map (\<lambda>x. x ! i) xs) [0..<n]
      = map (\<lambda>i. map (\<lambda>x. x ! i) (x # xs)) [0..<n]"
    using assms(2) s by (auto simp: column_array_def)
  ultimately show ?thesis
    by (simp add: data_property_def s column_array_def)
qed

lemma column_of_rows:
  assumes "j < length series" and "\<forall>x\<in>set series. length x = n"
  shows "map (\<lambda>r. r ! j) (map (\<lambda>i. map (\<lambda>x. x ! i) series) [0..<n]) = series ! j"
proof -
  have "length (series ! j) = n" using assms by simp
  then show ?thesis using assms(1) by (auto intro!: nth_equalityI)
qed

text \<open>
  Claim C10. The \<open>data\<close> accessor of a contrasts definition or a single-subject design
  matrix with no record raises (\<open>UnboundLocalError\<close>) instead of returning an empty
  matrix; for a document with at least one record, its records all of one length as
  the format requires, it returns a matrix with one column per record, column \<open>j\<close>
  being the series of the \<open>j\<close>-th record.
\<close>

theorem C10_data_accessor:
  "(ctr_contrasts d = [] \<longrightarrow> ctr_data d = Inl UnboundLocalError) \<and>
   (sdm_predictors s = [] \<longrightarrow> sdm_data s = Inl UnboundLocalError) \<and>
   (ctr_contrasts d \<noteq> [] \<and> (\<forall>c\<in>set (ctr_contrasts d). length (contrast_data c) = n) \<longrightarrow>
      (\<exists>m. ctr_data d = Inr m \<and> shape0 m = n \<and> shape1 m = length (ctr_contrasts d)
           \<and> length (rows m) = n
           \<and> (\<forall>j<length (ctr_contrasts d).
                 map (\<lambda>r. r ! j) (rows m) = contrast_data (ctr_contrasts d ! j)))) \<and>
   (sdm_predictors s \<noteq> [] \<and> (\<forall>p\<in>set (sdm_predictors s). length (predictor_data p) = k) \<longrightarrow>
      (\<exists>m. sdm_data s = Inr m \<and> shape0 m = k \<and> shape1 m = length (sdm_predictors s)
           \<and> length (rows m) = k
           \<and> (\<forall>j<length (sdm_predictors s).
                 map (\<lambda>r. r ! j) (rows m) = predictor_data (sdm_predictors s ! j))))"
proof (intro conjI impI)
  show "ctr_data d = Inl UnboundLocalError" if "ctr_contrasts d = []"
    using that by (simp add: ctr_data_def data_property_Nil)
  show "sdm_data s = Inl UnboundLocalError" if "sdm_predictors s = []"
    using that by (simp add: sdm_data_def data_property_Nil)
next
  assume a: "ctr_contrasts d \<noteq> [] \<and> (\<forall>c\<in>set (ctr_contrasts d). length (contrast_data c) = n)"
  let ?ser = "map contrast_data (ctr_contrasts d)"
  have 1: "?ser \<noteq> []" and 2: "\<forall>x\<in>set ?ser. length x = n" using a by auto
  have "ctr_data d = Inr \<lparr>shape0 = n, shape1 = length ?ser,
          rows = map (\<lambda>i. map (\<lambda>x. x ! i) ?ser) [0..<n]\<rparr>"
    unfolding ctr_data_def by (rule data_property_same_length[OF 1 2])
  moreover have "\<forall>j<length (ctr_contrasts d).
      map (\<lambda>r. r ! j) (map (\<lambda>i. map (\<lambda>x. x ! i) ?ser) [0..<n]) = contrast_data (ctr_contrasts d ! j)"
    using column_of_rows[OF _ 2] by simp
  ultimately show "\<exists>m. ctr_data d = Inr m \<and> shape0 m = n \<and> shape1 m = length (ctr_contrasts d)
           \<and> length (rows m) = n
           \<and> (\<forall>j<length (ctr_contrasts d).
                 map (\<lambda>r. r ! j) (rows m) = contrast_data (ctr_contrasts d ! j))"
    by simp
next
  assume a: "sdm_predictors s \<noteq> [] \<and> (\<forall>p\<in>set (sdm_predictors s). length (predictor_data p) = k)"
  let ?ser = "map predictor_data (sdm_predictors s)"
  have 1: "?ser \<noteq> []" and 2: "\<forall>x\<in>set ?ser. length x = k" using a by auto
  have "sdm_data s = Inr \<lparr>shape0 = k, shape1 = length ?ser,
          rows = map (\<lambda>i. map (\<lambda>x. x ! i) ?ser) [0..<k]\<rparr>"
    unfolding sdm_data_def by (rule data_property_same_length[OF 1 2])
  moreover have "\<forall>j<length (sdm_predictors s).
      map (\<lambda>r. r ! j) (map (\<lambda>i. map (\<lambda>x. x ! i) ?ser) [0..<k]) = predictor_data (sdm_predictors s ! j)"
    using column_of_rows[OF _ 2] by simp
  ultimately show "\<exists>m. sdm_data s = Inr m \<and> shape0 m = k \<and> shape1 m = length (sdm_predictors s)
           \<and> length (rows m) = k
           \<and> (\<forall>j<length (sdm_predictors s).
                 map (\<lambda>r. r ! j) (rows m) = predictor_data (sdm_predictors s ! j))"
    by simp
qed

theorem C10_data_accessor_witness:
  "ctr_data ctr_clear = Inl UnboundLocalError \<and>
   sdm_data (sdm_clear :: int sdm_design_matrix) = Inl UnboundLocalError \<and>
   (\<exists>m. ctr_data \<lparr>ctr_hdr = \<lparr>ctr_FileVersion = 1, ctr_NrOfContrasts = 2, ctr_NrOfValues = 2\<rparr>,
                   ctr_contrasts = [\<lparr>contrast_name = ''A'', contrast_data = [1, -1]\<rparr>,
                                    \<lparr>contrast_name = ''B'', contrast_data = [0, 1]\<rparr>]\<rparr> = Inr m
        \<and> shape0 m = 2 \<and> shape1 m = 2
        \<and> map (\<lambda>r. r ! 0) (rows m) = [1, -1] \<and> map (\<lambda>r. r ! 1) (rows m) = [0, 1]) \<and>
   (\<exists>m. sdm_data \<lparr>sdm_hdr = \<lparr>sdm_FileVersion = 1, sdm_NrOfPredictors = 2, sdm_NrOfDataPoints = 4,
                             sdm_IncludesConstant = 1, sdm_FirstConfoundPredictor = 2\<rparr>,
                   sdm_predictors = [\<lparr>predictor_name = ''P1'', predictor_data = [0, 1, 0, 1 :: int],
                                       predictor_colour = [255, 0, 0]\<rparr>,
                                     \<lparr>predictor_name = ''Constant'', predictor_data = [1, 1, 1, 1],
                                       predictor_colour = [255, 255, 255]\<rparr>]\<rparr> = Inr m
        \<and> shape0 m = 4 \<and> shape1 m = 2
        \<and> map (\<lambda>r. r ! 0) (rows m) = [0, 1, 0, 1] \<and> map (\<lambda>r. r ! 1) (rows m) = [1, 1, 1, 1])"
proof -
  let ?d = "\<lparr>ctr_hdr = \<lparr>ctr_FileVersion = 1, ctr_NrOfContrasts = 2, ctr_NrOfValues = 2\<rparr>,
                   ctr_contrasts = [\<lparr>contrast_name = ''A'', contrast_data = [1, -1]\<rparr>,
                                    \<lparr>contrast_name = ''B'', contrast_data = [0, 1]\<rparr>]\<rparr>"
  let ?s = "\<lparr>sdm_hdr = \<lparr>sdm_FileVersion = 1, sdm_NrOfPredictors = 2, sdm_NrOfDataPoints = 4,
                             sdm_IncludesConstant = 1, sdm_FirstConfoundPredictor = 2\<rparr>,
                   sdm_predictors = [\<lparr>predictor_name = ''P1'', predictor_data = [0, 1, 0, 1 :: int],
                                       predictor_colour = [255, 0, 0]\<rparr>,
                                     \<lparr>predictor_name = ''Constant'', predictor_data = [1, 1, 1, 1],
                                       predictor_colour = [255, 255, 255]\<rparr>]\<rparr>"
  have e: "ctr_data ctr_clear = Inl UnboundLocalError"
      "sdm_data (sdm_clear :: int sdm_design_matrix) = Inl UnboundLocalError"
    using C10_data_accessor[of ctr_clear "sdm_clear :: int sdm_design_matrix"]
    by (simp_all add: ctr_clear_def sdm_clear_def)
  from C10_data_accessor[of ?d ?s 2 4]
  obtain m1 m2 where m1: "ctr_data ?d = Inr m1" "shape0 m1 = 2" "shape1 m1 = 2"
      "\<forall>j<2. map (\<lambda>r. r ! j) (rows m1) = contrast_data (ctr_contrasts ?d ! j)"
    and m2: "sdm_data ?s = Inr m2" "shape0 m2 = 4" "shape1 m2 = 2"
      "\<forall>j<2. map (\<lambda>r. r ! j) (rows m2) = predictor_data (sdm_predictors ?s ! j)"
    by auto
  from m1(4) have c1: "map (\<lambda>r. r ! 0) (rows m1) = [1, -1]" "map (\<lambda>r. r ! 1) (rows m1) = [0, 1]"
    by auto
  from m2(4) have c2: "map (\<lambda>r. r ! 0) (rows m2) = [0, 1, 0, 1]"
      "map (\<lambda>r. r ! 1) (rows m2) = [1, 1, 1, 1]"
    by auto
  show ?thesis using e m1(1-3) m2(1-3) c1 c2 by simp
qed

section \<open>Cross-record invariants on add\<close>

lemma od_get_od_set: "od_get (od_set h k v) k' = (if k' = k then Some v else od_get h k')"
  by (induction h) (auto simp: od_get_def)

lemma ctr_build_keeps_length:
  "ctr_build d cs = Some d' \<Longrightarrow> 0 < ctr_NrOfContrasts (ctr_hdr d) \<Longrightarrow>
   0 < ctr_NrOfContrasts (ctr_hdr d') \<and> ctr_NrOfValues (ctr_hdr d') = ctr_NrOfValues (ctr_hdr d)"
proof (induction cs arbitrary: d)
  case Nil
  then show ?case by simp
next
  case (Cons c cs)
  then obtain d1 where d1: "add_contrast d c = Done d1" and b: "ctr_build d1 cs = Some d'"
    by (auto split: outcome.splits)
  from d1 Cons.prems(2) have "0 < ctr_NrOfContrasts (ctr_hdr d1)"
    and "ctr_NrOfValues (ctr_hdr d1) = ctr_NrOfValues (ctr_hdr d)"
    by (auto simp: add_contrast_def Let_def split: if_splits)
  with Cons.IH[OF b] show ?case by simp
qed

lemma ctr_first_fixes_length:
  assumes "ctr_build ctr_clear (r # rs) = Some d"
  shows "0 < ctr_NrOfContrasts (ctr_hdr d) \<and>
         ctr_NrOfValues (ctr_hdr d) = int (length (contrast_data r))"
proof -
  from assms obtain d1 where 1: "add_contrast ctr_clear r = Done d1"
      and b: "ctr_build d1 rs = Some d"
    by (auto split: outcome.splits)
  from 1 have 2: "0 < ctr_NrOfContrasts (ctr_hdr d1)"
      "ctr_NrOfValues (ctr_hdr d1) = int (length (contrast_data r))"
    by (auto simp: add_contrast_def ctr_clear_def Let_def split: if_splits)
  from ctr_build_keeps_length[OF b 2(1)] 2(2) show ?thesis by simp
qed

lemma sdm_build_keeps_length:
  "sdm_build d ps = Some d' \<Longrightarrow> 0 < sdm_NrOfPredictors (sdm_hdr d) \<Longrightarrow>
   0 < sdm_NrOfPredictors (sdm_hdr d') \<and>
   sdm_NrOfDataPoints (sdm_hdr d') = sdm_NrOfDataPoints (sdm_hdr d)"
proof (induction ps arbitrary: d)
  case Nil
  then show ?case by simp
next
  case (Cons pc ps)
  obtain p cf where pc: "pc = (p, cf)" by (cases pc)
  with Cons.prems obtain d1 where d1: "add_predictor d p cf = Done d1"
      and b: "sdm_build d1 ps = Some d'"
    by (auto split: outcome.splits)
  from d1 Cons.prems(2) have "0 < sdm_NrOfPredictors (sdm_hdr d1)"
    and "sdm_NrOfDataPoints (sdm_hdr d1) = sdm_NrOfDataPoints (sdm_hdr d)"
    by (auto simp: add_predictor_def Let_def split: if_splits)
  with Cons.IH[OF b] show ?case by simp
qed

lemma sdm_first_fixes_length:
  assumes "sdm_build sdm_clear ((q, cq) # qs) = Some d"
  shows "0 < sdm_NrOfPredictors (sdm_hdr d) \<and>
         sdm_NrOfDataPoints (sdm_hdr d) = int (length (predictor_data q))"
proof -
  from assms obtain d1 where 1: "add_predictor sdm_clear q cq = Done d1"
      and b: "sdm_build d1 qs = Some d"
    by (auto split: outcome.splits)
  from 1 have 2: "0 < sdm_NrOfPredictors (sdm_hdr d1)"
      "sdm_NrOfDataPoints (sdm_hdr d1) = int (length (predictor_data q))"
    by (auto simp: add_predictor_def sdm_clear_def Let_def split: if_splits)
  from sdm_build_keeps_length[OF b 2(1)] 2(2) show ?thesis by simp
qed

lemma add_study_typed:
  assumes "mdm_typed b m" and "add_study m x = Done m'"
  shows "mdm_typed b m'"
  using assms
  by (auto simp: mdm_typed_def add_study_def mdm_conflict_def mdm_count_and_append_def
      od_get_od_set split: if_splits)

lemma mdm_build_typed:
  "mdm_build m xs = Some m' \<Longrightarrow> mdm_typed b m \<Longrightarrow> mdm_typed b m'"
proof (induction xs arbitrary: m)
  case Nil
  then show ?case by simp
next
  case (Cons x xs)
  then obtain m1 where m1: "add_study m x = Done m1" and b: "mdm_build m1 xs = Some m'"
    by (auto split: outcome.splits)
  from Cons.IH[OF b add_study_typed[OF Cons.prems(2) m1]] show ?case .
qed

lemma mdm_first_fixes_type:
  assumes "mdm_build mdm_clear (t # ts) = Some m"
  shows "mdm_typed (1 < length (data_files t)) m"
proof -
  from assms obtain m1 where 1: "add_study mdm_clear t = Done m1"
      and b: "mdm_build m1 ts = Some m"
    by (auto split: outcome.splits)
  from 1 have 2: "mdm_typed (1 < length (data_files t)) m1"
    by (auto simp: add_study_def mdm_clear_def mdm_conflict_def od_get_def mdm_typed_def
        mdm_count_and_append_def split: if_splits)
  from mdm_build_typed[OF b 2] show ?thesis .
qed

lemma add_study_mismatch:
  assumes "mdm_typed b m" and "(1 < length (data_files x)) \<noteq> b"
  shows "add_study m x = Raised ValueError m"
  using assms
  by (auto simp: mdm_typed_def add_study_def mdm_conflict_def)

text \<open>
  In a document built by adding records to an empty one, adding a contrast or a
  predictor whose length differs from that of the first record added, or a study with
  more than one data file where the first study has one (or the reverse), raises
  \<open>ValueError\<close> and leaves the document as it was.
\<close>

lemma mismatch_on_built_document:
  "(ctr_build ctr_clear (r # rs) = Some d \<and>
      length (contrast_data c) \<noteq> length (contrast_data r) \<longrightarrow>
        add_contrast d c = Raised ValueError d) \<and>
   (sdm_build sdm_clear ((q, cq) # qs) = Some s \<and>
      length (predictor_data p) \<noteq> length (predictor_data q) \<longrightarrow>
        add_predictor s p conf = Raised ValueError s) \<and>
   (mdm_build mdm_clear (t # ts) = Some m \<and>
      (1 < length (data_files x)) \<noteq> (1 < length (data_files t)) \<longrightarrow>
        add_study m x = Raised ValueError m)"
proof (intro conjI impI)
  assume a: "ctr_build ctr_clear (r # rs) = Some d \<and>
      length (contrast_data c) \<noteq> length (contrast_data r)"
  with ctr_first_fixes_length[of r rs d] show "add_contrast d c = Raised ValueError d"
    by (simp add: add_contrast_def Let_def)
next
  assume a: "sdm_build sdm_clear ((q, cq) # qs) = Some s \<and>
      length (predictor_data p) \<noteq> length (predictor_data q)"
  with sdm_first_fixes_length[of q cq qs s] show "add_predictor s p conf = Raised ValueError s"
    by (simp add: add_predictor_def Let_def)
next
  assume a: "mdm_build mdm_clear (t # ts) = Some m \<and>
      (1 < length (data_files x)) \<noteq> (1 < length (data_files t))"
  with mdm_first_fixes_type[of t ts m] show "add_study m x = Raised ValueError m"
    by (intro add_study_mismatch) auto
qed

lemma mismatch_on_built_examples:
  "add_contrast (state_of (add_contrast ctr_clear \<lparr>contrast_name = ''A'', contrast_data = [1, -1]\<rparr>))
       \<lparr>contrast_name = ''B'', contrast_data = [1, 0, 0]\<rparr>
     = Raised ValueError
         (state_of (add_contrast ctr_clear \<lparr>contrast_name = ''A'', contrast_data = [1, -1]\<rparr>)) \<and>
   add_predictor
       (state_of (add_predictor sdm_clear
          \<lparr>predictor_name = ''P1'', predictor_data = [0, 1, 0, 1 :: int],
            predictor_colour = [255, 0, 0]\<rparr> False))
       \<lparr>predictor_name = ''P2'', predictor_data = [1, 1, 1], predictor_colour = [0, 0, 255]\<rparr>
       True
     = Raised ValueError
         (state_of (add_predictor sdm_clear
            \<lparr>predictor_name = ''P1'', predictor_data = [0, 1, 0, 1 :: int],
              predictor_colour = [255, 0, 0]\<rparr> False)) \<and>
   add_study (state_of (add_study mdm_clear (Study (OneFile ''a.vtc'') ''a.sdm'')))
       (Study (FileList [''b.ssm'', ''b.mtc'']) ''b.sdm'')
     = Raised ValueError (state_of (add_study mdm_clear (Study (OneFile ''a.vtc'') ''a.sdm''))) \<and>
   add_study (state_of (add_study mdm_clear (Study (FileList [''b.ssm'', ''b.mtc'']) ''b.sdm'')))
       (Study (OneFile ''a.vtc'') ''a.sdm'')
     = Raised ValueError
         (state_of (add_study mdm_clear (Study (FileList [''b.ssm'', ''b.mtc'']) ''b.sdm'')))"
  by code_simp

text \<open>
  Claim C3. For every document, an add that breaks the cross-record invariant raises and
  leaves the document unchanged. \<open>add_study\<close> finds out whether the document has
  studies from the header: it compares the cardinality of the new study with
  \<open>TypeOfFunctionalData\<close> only when \<open>NrOfStudies\<close> is positive. A document loaded
  from a file that \<open>save\<close> wrote holds the studies of the file and the count 0, since
  \<open>load\<close> reads the header from \<open>lines[:counter-1]\<close> and so skips the
  \<open>NrOfStudies\<close> line (as for claim C1). On the document loaded from the saved file
  of a document with one study of one data file, \<open>add_study\<close> of a study with two
  data files does not raise: it returns, the body then holds a study with one file and
  a study with two, and the header says MTC.
\<close>

theorem C3_add_study_mixes_cardinalities:
  "(let d = state_of (add_study mdm_clear (Study (OneFile ''a.vtc'') ''a.sdm''));
        l = mdm_load mdm_clear (mdm_save d);
        e = state_of l;
        r = add_study e (Study (FileList [''b.ssm'', ''b.mtc'']) ''b.sdm'')
    in raised l = None
       \<and> mdm_studies e = [Study (OneFile ''a.vtc'') ''a.sdm'']
       \<and> od_get (mdm_header e) ''TypeOfFunctionalData'' = Some (HStr ''VTC'')
       \<and> od_get (mdm_header e) ''NrOfStudies'' = Some (HInt 0)
       \<and> raised r = None
       \<and> mdm_studies (state_of r) =
            [Study (OneFile ''a.vtc'') ''a.sdm'', Study (FileList [''b.ssm'', ''b.mtc'']) ''b.sdm'']
       \<and> map (\<lambda>s. length (data_files s)) (mdm_studies (state_of r)) = [1, 2]
       \<and> od_get (mdm_header (state_of r)) ''TypeOfFunctionalData'' = Some (HStr ''MTC''))"
  by code_simp

section \<open>Stimulation protocols: adding a condition\<close>

lemma data_shape1_rows: "data_shape1 d = Some k \<Longrightarrow> r \<in> set d \<Longrightarrow> length r = k"
  by (auto simp: data_shape1_def list_all_iff split: list.splits if_splits)

lemma data_shape1_append_unit:
  "data_shape1 d = Some k \<Longrightarrow> data_shape1 (append_unit_column d) = Some (Suc k)"
  by (auto simp: data_shape1_def append_unit_column_def list_all_iff split: list.splits if_splits)

lemma retrofit_general:
  "\<forall>a\<in>set as. a < length hp \<Longrightarrow>
   \<forall>a\<in>set as. data_shape1 (condition_data (hp ! a)) = Some (if a \<in> W then 3 else 2) \<Longrightarrow>
   \<exists>hp'. retrofit as hp = (hp', None) \<and> length hp' = length hp \<and>
         (\<forall>b<length hp. hp' ! b = (if b \<in> set as - W then widened (hp ! b) else hp ! b))"
proof (induction as arbitrary: hp W)
  case Nil
  then show ?case by simp
next
  case (Cons a as)
  show ?case
  proof (cases "a \<in> W")
    case True
    have 1: "\<forall>b\<in>set as. b < length hp" using Cons.prems by simp
    have 2: "\<forall>b\<in>set as. data_shape1 (condition_data (hp ! b)) = Some (if b \<in> W then 3 else 2)"
      using Cons.prems by simp
    from Cons.IH[OF 1 2] obtain hp' where hp': "retrofit as hp = (hp', None)"
      "length hp' = length hp"
      "\<forall>b<length hp. hp' ! b = (if b \<in> set as - W then widened (hp ! b) else hp ! b)"
      by auto
    have "retrofit (a # as) hp = (hp', None)"
      using Cons.prems(2) True hp'(1) by simp
    moreover have "\<forall>b<length hp. hp' ! b = (if b \<in> set (a # as) - W then widened (hp ! b) else hp ! b)"
      using hp'(3) True by auto
    ultimately show ?thesis using hp'(2) by simp
  next
    case False
    let ?hp = "hp[a := widened (hp ! a)]"
    let ?W = "insert a W"
    have a: "a < length hp" "data_shape1 (condition_data (hp ! a)) = Some 2"
      using Cons.prems False by auto
    have 1: "\<forall>b\<in>set as. b < length ?hp" using Cons.prems by simp
    have 2: "\<forall>b\<in>set as. data_shape1 (condition_data (?hp ! b)) = Some (if b \<in> ?W then 3 else 2)"
    proof
      fix b assume b: "b \<in> set as"
      show "data_shape1 (condition_data (?hp ! b)) = Some (if b \<in> ?W then 3 else 2)"
      proof (cases "b = a")
        case True
        then show ?thesis using a data_shape1_append_unit[OF a(2)]
          by (simp add: widened_def eval_nat_numeral)
      next
        case False
        then show ?thesis using Cons.prems(2) b by simp
      qed
    qed
    from Cons.IH[OF 1 2] obtain hp' where hp': "retrofit as ?hp = (hp', None)"
      "length hp' = length hp"
      "\<forall>b<length hp. hp' ! b = (if b \<in> set as - ?W then widened (?hp ! b) else ?hp ! b)"
      by auto
    have "retrofit (a # as) hp = (hp', None)"
      using a hp'(1) by (simp add: widened_def)
    moreover have "\<forall>b<length hp. hp' ! b = (if b \<in> set (a # as) - W then widened (hp ! b) else hp ! b)"
      using hp'(3) False a by (auto simp: nth_list_update)
    ultimately show ?thesis using hp'(2) by simp
  qed
qed

lemma retrofit_two_columns:
  assumes "\<forall>a\<in>set as. a < length hp \<and> data_shape1 (condition_data (hp ! a)) = Some 2"
  shows "\<exists>hp'. retrofit as hp = (hp', None) \<and> length hp' = length hp \<and>
         (\<forall>b<length hp. hp' ! b = (if b \<in> set as then widened (hp ! b) else hp ! b))"
  using retrofit_general[of as hp "{}"] assms by simp

lemma add_condition_retrofit:
  assumes ex: "\<forall>b\<in>set (prt_conditions p).
                 b < length (prt_heap p) \<and> data_shape1 (condition_data (prt_heap p ! b)) = Some 2"
    and new: "a < length (prt_heap p)" "data_shape1 (condition_data (prt_heap p ! a)) = Some 3"
    and cnt: "od_get (prt_header p) ''NrOfConditions'' = Some (HInt n)"
  shows "\<exists>p'. add_condition p a = Done p'
           \<and> prt_conditions p' = prt_conditions p @ [a]
           \<and> (\<forall>b\<in>set (prt_conditions p).
                 prt_heap p' ! b = (prt_heap p ! b)
                   \<lparr>condition_data := map (\<lambda>r. r @ [1]) (condition_data (prt_heap p ! b))\<rparr>)
           \<and> prt_heap p' ! a = prt_heap p ! a
           \<and> (\<forall>c\<in>set (conditions p'). data_shape1 (condition_data c) = Some 3)
           \<and> od_get (prt_header p') ''FileVersion'' = Some (HInt 3)
           \<and> od_get (prt_header p') ''ParametricWeights'' = Some (HInt 1)
           \<and> od_get (prt_header p') ''NrOfConditions'' = Some (HInt (n + 1))"
proof -
  from retrofit_two_columns[OF ex] obtain hp' where
    hp': "retrofit (prt_conditions p) (prt_heap p) = (hp', None)"
      "length hp' = length (prt_heap p)"
      "\<forall>b<length (prt_heap p). hp' ! b =
          (if b \<in> set (prt_conditions p) then widened (prt_heap p ! b) else prt_heap p ! b)"
    by auto
  have anot: "a \<notin> set (prt_conditions p)" using ex new(2) by auto
  let ?h = "od_set (od_set (od_set (prt_header p) ''FileVersion'' (HInt 3))
              ''ParametricWeights'' (HInt 1)) ''NrOfConditions'' (HInt (n + 1))"
  let ?p' = "\<lparr>prt_header = ?h, prt_conditions = prt_conditions p @ [a], prt_heap = hp'\<rparr>"
  have run: "add_condition p a = Done ?p'"
    using new(2) hp'(1) cnt
    by (simp add: add_condition_def append_and_count_def od_get_od_set Let_def)
  have old: "\<forall>b\<in>set (prt_conditions p).
                 hp' ! b = (prt_heap p ! b)
                   \<lparr>condition_data := map (\<lambda>r. r @ [1]) (condition_data (prt_heap p ! b))\<rparr>"
    using hp'(3) ex by (auto simp: widened_def append_unit_column_def)
  have anew: "hp' ! a = prt_heap p ! a" using hp'(3) new(1) anot by simp
  have shapes: "\<forall>c\<in>set (conditions ?p'). data_shape1 (condition_data c) = Some 3"
  proof
    fix c assume "c \<in> set (conditions ?p')"
    then obtain b where b: "b \<in> set (prt_conditions p @ [a])" "c = hp' ! b"
      by (auto simp: conditions_def)
    show "data_shape1 (condition_data c) = Some 3"
    proof (cases "b = a")
      case True
      then show ?thesis using b anew new(2) by simp
    next
      case False
      then have bin: "b \<in> set (prt_conditions p)" using b(1) by simp
      then have "data_shape1 (condition_data (prt_heap p ! b)) = Some 2" using ex by simp
      from data_shape1_append_unit[OF this] show ?thesis
        using old bin b(2) by (simp add: append_unit_column_def eval_nat_numeral)
    qed
  qed
  show ?thesis
    using run old anew shapes by (simp add: od_get_od_set)
qed


text \<open>
  Claim C4. Adding a condition with three columns to a protocol whose conditions have
  two gives every condition held a third column of ones, sets \<open>FileVersion\<close> to 3 and
  \<open>ParametricWeights\<close> to 1, and appends the added condition. The module
  src/brainvoyagertools/prt.py does so (lemma \<open>add_condition_retrofit\<close>). The module
  src/prt/__init__.py appends the last condition it already held a second time, and the
  added condition is not in the body.
\<close>

theorem C4_legacy_appends_wrong_condition:
  "(let (p1, a) = new_condition prt_empty (Condition ''A'' [[1, 3 :: int]] [255, 0, 0]);
        p2 = state_of (add_condition_legacy p1 a);
        (p3, b) = new_condition p2 (Condition ''B'' [[5, 6, 2]] [0, 0, 255]);
        r = add_condition_legacy p3 b
    in raised r = None
       \<and> prt_conditions p3 = [a]
       \<and> prt_conditions (state_of r) = [a, a]
       \<and> map condition_name (conditions (state_of r)) = [''A'', ''A'']
       \<and> map condition_data (conditions (state_of r)) = [[[1, 3, 1]], [[1, 3, 1]]]
       \<and> od_get (prt_header (state_of r)) ''NrOfConditions'' = Some (HInt 2)
       \<and> b \<notin> set (prt_conditions (state_of r)))"
  by code_simp

section \<open>Stimulation protocols: time units and derived views\<close>

lemma prt_example_eq:
  "prt_example =
     \<lparr>prt_header = [(''FileVersion'', HInt 2),
                      (''ResolutionOfTime'', HStr ''Volumes''),
                      (''Experiment'', HStr ''untitled''),
                      (''BackgroundColor'', HList [0, 0, 0]),
                      (''TextColor'', HList [255, 255, 255]),
                      (''TimeCourseColor'', HList [255, 255, 255]),
                      (''TimeCourseThick'', HInt 3),
                      (''ReferenceFuncColor'', HList [0, 0, 80]),
                      (''ReferenceFuncThick'', HInt 3),
                      (''ParametricWeights'', HInt 0),
                      (''NrOfConditions'', HInt 2)],
       prt_conditions = [0, 1],
       prt_heap = [\<lparr>condition_name = ''B'', condition_data = [[5, 6]], condition_colour = [0, 0, 255]\<rparr>,
                   \<lparr>condition_name = ''A'', condition_data = [[1, 3]], condition_colour = [255, 0, 0]\<rparr>]\<rparr>"
  by code_simp

lemma prt_interleaved_eq:
  "prt_interleaved =
     \<lparr>prt_header = [(''FileVersion'', HInt 2),
                      (''ResolutionOfTime'', HStr ''Volumes''),
                      (''Experiment'', HStr ''untitled''),
                      (''BackgroundColor'', HList [0, 0, 0]),
                      (''TextColor'', HList [255, 255, 255]),
                      (''TimeCourseColor'', HList [255, 255, 255]),
                      (''TimeCourseThick'', HInt 3),
                      (''ReferenceFuncColor'', HList [0, 0, 80]),
                      (''ReferenceFuncThick'', HInt 3),
                      (''ParametricWeights'', HInt 0),
                      (''NrOfConditions'', HInt 2)],
       prt_conditions = [0, 1],
       prt_heap = [\<lparr>condition_name = ''B'', condition_data = [[5, 6], [10, 12]],
                     condition_colour = [0, 0, 255]\<rparr>,
                   \<lparr>condition_name = ''A'', condition_data = [[1, 3], [7, 9]],
                     condition_colour = [255, 0, 0]\<rparr>]\<rparr>"
  by code_simp

lemma convert_rows_ok:
  "\<forall>r\<in>set d. 2 \<le> length r \<and> \<not> isl (to_int ((r ! 0 - 1) * tr)) \<and> \<not> isl (to_int (r ! 1 * tr)) \<Longrightarrow>
   convert_rows to_int tr d =
     (map (\<lambda>r. projr (to_int ((r ! 0 - 1) * tr)) # projr (to_int (r ! 1 * tr)) # drop 2 r) d, None)"
proof (induction d)
  case Nil
  then show ?case by simp
next
  case (Cons r d)
  then obtain x y zs where r: "r = x # y # zs"
    by (cases r; cases "tl r") auto
  with Cons show ?case by (auto split: sum.splits)
qed

lemma convert_conditions_distinct:
  "distinct as \<Longrightarrow>
   \<forall>a\<in>set as. a < length hp \<and>
      (\<forall>r\<in>set (condition_data (hp ! a)).
          2 \<le> length r \<and> \<not> isl (to_int ((r ! 0 - 1) * tr)) \<and> \<not> isl (to_int (r ! 1 * tr))) \<Longrightarrow>
   \<exists>hp'. convert_conditions to_int tr as hp = (hp', None) \<and> length hp' = length hp \<and>
     (\<forall>b<length hp. hp' ! b =
        (if b \<in> set as
         then (hp ! b)\<lparr>condition_data :=
                map (\<lambda>r. projr (to_int ((r ! 0 - 1) * tr)) # projr (to_int (r ! 1 * tr)) # drop 2 r)
                  (condition_data (hp ! b))\<rparr>
         else hp ! b))"
proof (induction as arbitrary: hp)
  case Nil
  then show ?case by simp
next
  case (Cons a as)
  let ?f = "\<lambda>r. projr (to_int ((r ! 0 - 1) * tr)) # projr (to_int (r ! 1 * tr)) # drop 2 r"
  let ?hp = "hp[a := (hp ! a)\<lparr>condition_data := map ?f (condition_data (hp ! a))\<rparr>]"
  have a: "a < length hp" "a \<notin> set as" using Cons.prems by auto
  have rows: "convert_rows to_int tr (condition_data (hp ! a)) = (map ?f (condition_data (hp ! a)), None)"
    using Cons.prems(2) by (intro convert_rows_ok) simp
  have 1: "distinct as" using Cons.prems by simp
  have 2: "\<forall>b\<in>set as. b < length ?hp \<and>
      (\<forall>r\<in>set (condition_data (?hp ! b)).
          2 \<le> length r \<and> \<not> isl (to_int ((r ! 0 - 1) * tr)) \<and> \<not> isl (to_int (r ! 1 * tr)))"
  proof
    fix b assume b: "b \<in> set as"
    then have "b \<noteq> a" using a by auto
    then have "?hp ! b = hp ! b" by simp
    then show "b < length ?hp \<and>
      (\<forall>r\<in>set (condition_data (?hp ! b)).
          2 \<le> length r \<and> \<not> isl (to_int ((r ! 0 - 1) * tr)) \<and> \<not> isl (to_int (r ! 1 * tr)))"
      using Cons.prems(2) b by simp
  qed
  from Cons.IH[OF 1 2] obtain hp' where hp': "convert_conditions to_int tr as ?hp = (hp', None)"
    "length hp' = length hp"
    "\<forall>b<length hp. hp' ! b =
        (if b \<in> set as
         then (?hp ! b)\<lparr>condition_data := map ?f (condition_data (?hp ! b))\<rparr>
         else ?hp ! b)"
    by auto
  have "convert_conditions to_int tr (a # as) hp = (hp', None)"
    using rows hp'(1) by simp
  moreover have "\<forall>b<length hp. hp' ! b =
        (if b \<in> set (a # as)
         then (hp ! b)\<lparr>condition_data := map ?f (condition_data (hp ! b))\<rparr>
         else hp ! b)"
    using hp'(3) a by (auto simp: nth_list_update)
  ultimately show ?case using hp'(2) by simp
qed

lemma prt_weighted_eq:
  "prt_weighted =
     \<lparr>prt_header = [(''FileVersion'', HInt 3),
                      (''ResolutionOfTime'', HStr ''Volumes''),
                      (''Experiment'', HStr ''untitled''),
                      (''BackgroundColor'', HList [0, 0, 0]),
                      (''TextColor'', HList [255, 255, 255]),
                      (''TimeCourseColor'', HList [255, 255, 255]),
                      (''TimeCourseThick'', HInt 3),
                      (''ReferenceFuncColor'', HList [0, 0, 80]),
                      (''ReferenceFuncThick'', HInt 3),
                      (''ParametricWeights'', HInt 1),
                      (''NrOfConditions'', HInt 1)],
       prt_conditions = [0],
       prt_heap = [\<lparr>condition_name = ''A'', condition_data = [[2, 4, 1 / 2]],
                     condition_colour = [255, 0, 0]\<rparr>]\<rparr>"
  by code_simp

text \<open>
  Claim C7. \<open>convert_to_msec\<close> changes nothing when the time unit is msec; otherwise
  it replaces every onset by (onset - 1) * tr and every offset by offset * tr and sets the
  time unit to msec; applying it twice gives the state that applying it once gives.

  As the code has it: let the protocol hold every condition object once, and let every
  interval have an onset and an offset. If the time unit is msec, \<open>convert_to_msec\<close>
  changes nothing. Otherwise, if \<open>int\<close> returns on the products, it replaces the onset
  of every interval by int((onset - 1) * tr) and the offset by int(offset * tr), which
  are the products themselves when the cells and tr are integers; it leaves every other
  cell, the names, the colours and the list of conditions, and sets the time unit to
  msec. A call that returned has left a state on which a further call, with whatever tr,
  changes nothing.
\<close>

theorem C7_convert_to_msec:
  "(time_units p = Some (HStr ''msec'') \<longrightarrow> convert_to_msec to_int p tr = Done p) \<and>
   (time_units p = Some u \<and> u \<noteq> HStr ''msec'' \<and> distinct (prt_conditions p) \<and>
    (\<forall>a\<in>set (prt_conditions p). a < length (prt_heap p) \<and>
        (\<forall>r\<in>set (condition_data (prt_heap p ! a)).
            2 \<le> length r \<and> \<not> isl (to_int ((r ! 0 - 1) * tr)) \<and> \<not> isl (to_int (r ! 1 * tr)))) \<longrightarrow>
      (\<exists>p'. convert_to_msec to_int p tr = Done p'
          \<and> time_units p' = Some (HStr ''msec'')
          \<and> prt_conditions p' = prt_conditions p
          \<and> (\<forall>a\<in>set (prt_conditions p).
                prt_heap p' ! a = (prt_heap p ! a)
                  \<lparr>condition_data :=
                     map (\<lambda>r. projr (to_int ((r ! 0 - 1) * tr)) # projr (to_int (r ! 1 * tr)) # drop 2 r)
                       (condition_data (prt_heap p ! a))\<rparr>))) \<and>
   (convert_to_msec to_int p tr = Done q \<longrightarrow> convert_to_msec to_int2 q tr2 = Done q)"
proof (intro conjI impI)
  assume "time_units p = Some (HStr ''msec'')"
  then show "convert_to_msec to_int p tr = Done p"
    by (simp add: convert_to_msec_def time_units_def)
next
  let ?f = "\<lambda>r. projr (to_int ((r ! 0 - 1) * tr)) # projr (to_int (r ! 1 * tr)) # drop 2 r"
  assume a: "time_units p = Some u \<and> u \<noteq> HStr ''msec'' \<and> distinct (prt_conditions p) \<and>
    (\<forall>a\<in>set (prt_conditions p). a < length (prt_heap p) \<and>
        (\<forall>r\<in>set (condition_data (prt_heap p ! a)).
            2 \<le> length r \<and> \<not> isl (to_int ((r ! 0 - 1) * tr)) \<and> \<not> isl (to_int (r ! 1 * tr))))"
  then have d: "distinct (prt_conditions p)"
    and ok: "\<forall>a\<in>set (prt_conditions p). a < length (prt_heap p) \<and>
        (\<forall>r\<in>set (condition_data (prt_heap p ! a)).
            2 \<le> length r \<and> \<not> isl (to_int ((r ! 0 - 1) * tr)) \<and> \<not> isl (to_int (r ! 1 * tr)))"
    by auto
  from convert_conditions_distinct[OF d ok] obtain hp' where
    hp': "convert_conditions to_int tr (prt_conditions p) (prt_heap p) = (hp', None)"
    "\<forall>b<length (prt_heap p). hp' ! b =
        (if b \<in> set (prt_conditions p)
         then (prt_heap p ! b)\<lparr>condition_data := map ?f (condition_data (prt_heap p ! b))\<rparr>
         else prt_heap p ! b)"
    by auto
  let ?p' = "p\<lparr>prt_heap := hp',
               prt_header := od_set (prt_header p) ''ResolutionOfTime'' (HStr ''msec'')\<rparr>"
  have "convert_to_msec to_int p tr = Done ?p'"
    using a hp'(1) by (simp add: convert_to_msec_def time_units_def)
  moreover have "\<forall>a\<in>set (prt_conditions p).
                hp' ! a = (prt_heap p ! a)\<lparr>condition_data := map ?f (condition_data (prt_heap p ! a))\<rparr>"
    using hp'(2) ok by auto
  ultimately show "\<exists>p'. convert_to_msec to_int p tr = Done p'
          \<and> time_units p' = Some (HStr ''msec'')
          \<and> prt_conditions p' = prt_conditions p
          \<and> (\<forall>a\<in>set (prt_conditions p).
                prt_heap p' ! a = (prt_heap p ! a)
                  \<lparr>condition_data := map ?f (condition_data (prt_heap p ! a))\<rparr>)"
    by (simp add: time_units_def od_get_od_set)
next
  assume "convert_to_msec to_int p tr = Done q"
  then have "od_get (prt_header q) ''ResolutionOfTime'' = Some (HStr ''msec'')"
    by (auto simp: convert_to_msec_def od_get_od_set split: option.splits if_splits prod.splits)
  then show "convert_to_msec to_int2 q tr2 = Done q"
    by (simp add: convert_to_msec_def)
qed

theorem C7_convert_to_msec_witness:
  "convert_to_msec int_of_int prt_interleaved 2000
     = Done (state_of (convert_to_msec int_of_int prt_interleaved 2000))
   \<and> time_units (state_of (convert_to_msec int_of_int prt_interleaved 2000)) = Some (HStr ''msec'')
   \<and> map condition_data (conditions (state_of (convert_to_msec int_of_int prt_interleaved 2000)))
        = [[[8000, 12000], [18000, 24000]], [[0, 6000], [12000, 18000]]]
   \<and> convert_to_msec int_of_int (state_of (convert_to_msec int_of_int prt_interleaved 2000)) 2000
     = Done (state_of (convert_to_msec int_of_int prt_interleaved 2000))
   \<and> convert_to_msec int_of_int (state_of (convert_to_msec int_of_int prt_interleaved 2000)) 3000
     = Done (state_of (convert_to_msec int_of_int prt_interleaved 2000))
   \<and> convert_to_msec int_of_fraction prt_weighted (2001 / 2)
     = Done (state_of (convert_to_msec int_of_fraction prt_weighted (2001 / 2)))
   \<and> map condition_data (conditions (state_of (convert_to_msec int_of_fraction prt_weighted (2001 / 2))))
        = [[[1000, 4002, 1 / 2]]]"
proof -
  have pre: "time_units prt_interleaved = Some (HStr ''Volumes'') \<and> HStr ''Volumes'' \<noteq> HStr ''msec'' \<and>
    distinct (prt_conditions prt_interleaved) \<and>
    (\<forall>a\<in>set (prt_conditions prt_interleaved). a < length (prt_heap prt_interleaved) \<and>
        (\<forall>r\<in>set (condition_data (prt_heap prt_interleaved ! a)).
            2 \<le> length r \<and> \<not> isl (int_of_int ((r ! 0 - 1) * 2000)) \<and> \<not> isl (int_of_int (r ! 1 * 2000))))"
    by (simp add: prt_interleaved_eq time_units_def od_get_def int_of_int_def)
  from C7_convert_to_msec[of prt_interleaved int_of_int 2000 "HStr ''Volumes''",
      THEN conjunct2, THEN conjunct1, rule_format, OF pre]
  obtain p' where p': "convert_to_msec int_of_int prt_interleaved 2000 = Done p'"
      "time_units p' = Some (HStr ''msec'')"
      "prt_conditions p' = prt_conditions prt_interleaved"
      "\<forall>a\<in>set (prt_conditions prt_interleaved).
          prt_heap p' ! a = (prt_heap prt_interleaved ! a)
            \<lparr>condition_data :=
               map (\<lambda>r. projr (int_of_int ((r ! 0 - 1) * 2000)) # projr (int_of_int (r ! 1 * 2000)) # drop 2 r)
                 (condition_data (prt_heap prt_interleaved ! a))\<rparr>"
    by blast
  have st: "state_of (convert_to_msec int_of_int prt_interleaved 2000) = p'" using p'(1) by simp
  have twice: "convert_to_msec int_of_int p' 2000 = Done p'"
    using C7_convert_to_msec[of prt_interleaved int_of_int 2000 _ p' int_of_int 2000,
        THEN conjunct2, THEN conjunct2] p'(1)
    by simp
  have other: "convert_to_msec int_of_int p' 3000 = Done p'"
    using C7_convert_to_msec[of p' int_of_int 3000, THEN conjunct1] p'(2) by simp
  have data: "map condition_data (conditions p') =
      [[[8000, 12000], [18000, 24000]], [[0, 6000], [12000, 18000]]]"
    using p'(3,4) by (simp add: conditions_def prt_interleaved_eq int_of_int_def)
  have prew: "time_units prt_weighted = Some (HStr ''Volumes'') \<and> HStr ''Volumes'' \<noteq> HStr ''msec'' \<and>
    distinct (prt_conditions prt_weighted) \<and>
    (\<forall>a\<in>set (prt_conditions prt_weighted). a < length (prt_heap prt_weighted) \<and>
        (\<forall>r\<in>set (condition_data (prt_heap prt_weighted ! a)).
            2 \<le> length r \<and> \<not> isl (int_of_fraction ((r ! 0 - 1) * (2001 / 2))) \<and>
            \<not> isl (int_of_fraction (r ! 1 * (2001 / 2)))))"
    by (simp add: prt_weighted_eq time_units_def od_get_def int_of_fraction_def)
  from C7_convert_to_msec[of prt_weighted int_of_fraction "2001 / 2" "HStr ''Volumes''",
      THEN conjunct2, THEN conjunct1, rule_format, OF prew]
  obtain w' where w': "convert_to_msec int_of_fraction prt_weighted (2001 / 2) = Done w'"
      "prt_conditions w' = prt_conditions prt_weighted"
      "\<forall>a\<in>set (prt_conditions prt_weighted).
          prt_heap w' ! a = (prt_heap prt_weighted ! a)
            \<lparr>condition_data :=
               map (\<lambda>r. projr (int_of_fraction ((r ! 0 - 1) * (2001 / 2))) #
                        projr (int_of_fraction (r ! 1 * (2001 / 2))) # drop 2 r)
                 (condition_data (prt_heap prt_weighted ! a))\<rparr>"
    by blast
  have stw: "state_of (convert_to_msec int_of_fraction prt_weighted (2001 / 2)) = w'"
    using w'(1) by simp
  have onset: "int_of_fraction ((2 - 1) * (2001 / 2)) = Inr 1000" by code_simp
  have offset: "int_of_fraction (4 * (2001 / 2)) = Inr 4002" by code_simp
  have dataw: "map condition_data (conditions w') = [[[1000, 4002, 1 / 2]]]"
    using w'(2,3) onset offset by (simp add: conditions_def prt_weighted_eq)
  show ?thesis unfolding st stw using p'(1,2) twice other data w'(1) dataw by simp
qed

text \<open>
  The claim as stated speaks of every protocol and every tr. Two examples show that it
  does not hold of them all.

  The protocol holds references: after \<open>c = Condition("A", [[1, 3]], [255, 0, 0]);
  p.add_condition(c); p.add_condition(c)\<close> the list of conditions has the one object
  twice, the loop of \<open>convert_to_msec(2000)\<close> visits it twice, and its interval
  is (-2000, 12000000) where the claim has (0, 6000).

  The source writes \<open>int(...)\<close> of the two products. With the interval (2, 4) and
  tr = 1000.5 the onset becomes 1000 where the claim has 1 * 1000.5.
\<close>

theorem C7_shared_object_and_fraction:
  "(let (p1, a) = new_condition prt_empty (Condition ''A'' [[1, 3 :: int]] [255, 0, 0]);
        p2 = state_of (add_condition p1 a);
        l = add_condition p2 a;
        r = convert_to_msec int_of_int (state_of l) 2000
    in raised l = None
       \<and> prt_conditions (state_of l) = [a, a]
       \<and> time_units (state_of l) = Some (HStr ''Volumes'')
       \<and> map condition_data (conditions (state_of l)) = [[[1, 3]], [[1, 3]]]
       \<and> raised r = None
       \<and> time_units (state_of r) = Some (HStr ''msec'')
       \<and> map condition_data (conditions (state_of r)) = [[[- 2000, 12000000]], [[- 2000, 12000000]]]
       \<and> [[(1 - 1) * 2000, 3 * 2000]] = [[0, 6000 :: int]])
   \<and>
   (let (p1, a) = new_condition prt_empty (Condition ''A'' [[2, 4 :: rat]] [255, 0, 0]);
        l = add_condition p1 a;
        r = convert_to_msec int_of_fraction (state_of l) (2001 / 2)
    in raised l = None
       \<and> prt_conditions (state_of l) = [a]
       \<and> time_units (state_of l) = Some (HStr ''Volumes'')
       \<and> raised r = None
       \<and> map condition_data (conditions (state_of r)) = [[[1000, 4002]]]
       \<and> (2 - 1) * (2001 / 2) = (2001 / 2 :: rat)
       \<and> (2001 / 2 :: rat) \<noteq> 1000)"
  by code_simp

lemma column_difference_ok:
  assumes "data_shape1 (condition_data c) = Some n" "2 \<le> n"
  shows "column_difference msec c =
           Some (map (\<lambda>r. if msec then r ! 1 - r ! 0 else r ! 1 - r ! 0 + 1) (condition_data c))"
  using assms by (simp add: column_difference_def)

text \<open>
  Claim C8. In a protocol whose conditions have two columns at least, the event list
  holds, for every condition and every interval of it, the condition's name with the
  cells of the interval, each as often as it occurs, and nothing else, and it is sorted
  ascending by onset; the duration of an event, and of an interval in the per-condition
  view, is offset - onset when the time unit is msec and offset - onset + 1 otherwise, in
  particular in volumes. The conditions are read from the store through the list of
  references, as the source reads them.
\<close>

theorem C8_derived_views:
  assumes tu: "od_get (prt_header p) ''ResolutionOfTime'' = Some u"
    and sh: "\<forall>a\<in>set (prt_conditions p).
               \<exists>k\<ge>2. data_shape1 (condition_data (prt_heap p ! a)) = Some k"
  shows "\<exists>evs. event_list p = Inr evs
           \<and> mset evs =
               mset (concat (map (\<lambda>a. map (\<lambda>r. (condition_name (prt_heap p ! a), r))
                                         (condition_data (prt_heap p ! a)))
                              (prt_conditions p)))
           \<and> sorted (map (\<lambda>e. snd e ! 0) evs)
           \<and> event_durations p =
               Inr (map (\<lambda>e. if u = HStr ''msec'' then snd e ! 1 - snd e ! 0
                              else snd e ! 1 - snd e ! 0 + 1) evs)
           \<and> condition_durations p =
               Inr (map (\<lambda>a. map (\<lambda>r. if u = HStr ''msec'' then r ! 1 - r ! 0
                                        else r ! 1 - r ! 0 + 1)
                                 (condition_data (prt_heap p ! a)))
                      (prt_conditions p))"
proof -
  let ?all = "concat (map (\<lambda>c. map (\<lambda>r. (condition_name c, r)) (condition_data c)) (conditions p))"
  let ?evs = "sort_key (\<lambda>e. hd (snd e)) ?all"
  have all: "?all = concat (map (\<lambda>a. map (\<lambda>r. (condition_name (prt_heap p ! a), r))
                                         (condition_data (prt_heap p ! a)))
                              (prt_conditions p))"
    by (simp add: conditions_def comp_def)
  have rows0: "\<forall>e\<in>set ?all. 2 \<le> length (snd e)"
  proof
    fix e assume "e \<in> set ?all"
    then obtain a where a: "a \<in> set (prt_conditions p)"
        "snd e \<in> set (condition_data (prt_heap p ! a))"
      unfolding all by auto
    from sh a(1) obtain k where "2 \<le> k" "data_shape1 (condition_data (prt_heap p ! a)) = Some k"
      by blast
    with data_shape1_rows[OF this(2) a(2)] show "2 \<le> length (snd e)" by simp
  qed
  have ne0: "\<not> list_ex (\<lambda>e. snd e = []) ?all"
    unfolding list_ex_iff
  proof
    assume "\<exists>e\<in>set ?all. snd e = []"
    then obtain e where e: "e \<in> set ?all" "snd e = []" by blast
    from rows0 e(1) have "2 \<le> length (snd e)" by blast
    with e(2) show False by simp
  qed
  have el: "event_list p = Inr ?evs"
    using ne0 by (simp add: event_list_def Let_def)
  have rows: "\<forall>e\<in>set ?evs. 2 \<le> length (snd e)"
    using rows0 by simp
  have ms: "mset ?evs = mset (concat (map (\<lambda>a. map (\<lambda>r. (condition_name (prt_heap p ! a), r))
                                         (condition_data (prt_heap p ! a)))
                              (prt_conditions p)))"
    using all by simp
  have "sorted (map (\<lambda>e. hd (snd e)) ?evs)" by (rule sorted_sort_key)
  moreover have "map (\<lambda>e. hd (snd e)) ?evs = map (\<lambda>e. snd e ! 0) ?evs"
  proof (rule map_cong[OF refl])
    fix e assume "e \<in> set ?evs"
    with rows have "2 \<le> length (snd e)" by blast
    then have "snd e \<noteq> []" by auto
    then show "hd (snd e) = snd e ! 0" by (simp add: hd_conv_nth)
  qed
  ultimately have so: "sorted (map (\<lambda>e. snd e ! 0) ?evs)" by simp
  have short: "\<not> list_ex (\<lambda>e. length (snd e) < 2) ?evs"
    unfolding list_ex_iff
  proof
    assume "\<exists>e\<in>set ?evs. length (snd e) < 2"
    then obtain e where e: "e \<in> set ?evs" "length (snd e) < 2" by blast
    from rows e(1) have "2 \<le> length (snd e)" by blast
    with e(2) show False by simp
  qed
  have ed: "event_durations p =
               Inr (map (\<lambda>e. if u = HStr ''msec'' then snd e ! 1 - snd e ! 0
                              else snd e ! 1 - snd e ! 0 + 1) ?evs)"
    using tu el short by (simp add: event_durations_def time_units_def)
  have cdk: "column_difference msec (prt_heap p ! a) =
        Some (map (\<lambda>r. if msec then r ! 1 - r ! 0 else r ! 1 - r ! 0 + 1)
                (condition_data (prt_heap p ! a)))"
    if "a \<in> set (prt_conditions p)" for msec a
  proof -
    from sh that obtain n where "2 \<le> n" "data_shape1 (condition_data (prt_heap p ! a)) = Some n"
      by blast
    then show ?thesis by (simp add: column_difference_ok)
  qed
  have none: "\<not> list_ex (\<lambda>d. d = None) (map (column_difference msec) (conditions p))" for msec
    by (auto simp: list_ex_iff conditions_def cdk)
  have vals: "map the (map (column_difference msec) (conditions p)) =
      map (\<lambda>a. map (\<lambda>r. if msec then r ! 1 - r ! 0 else r ! 1 - r ! 0 + 1)
                  (condition_data (prt_heap p ! a))) (prt_conditions p)" for msec
    by (simp add: conditions_def cdk)
  have cd: "condition_durations p =
               Inr (map (\<lambda>a. map (\<lambda>r. if u = HStr ''msec'' then r ! 1 - r ! 0
                                        else r ! 1 - r ! 0 + 1)
                                 (condition_data (prt_heap p ! a)))
                      (prt_conditions p))"
    using tu none[of "u = HStr ''msec''"] vals[of "u = HStr ''msec''"]
    by (simp add: condition_durations_def time_units_def Let_def)
  show ?thesis using el ms so ed cd by blast
qed

theorem C8_derived_views_witness:
  "event_list prt_interleaved =
     Inr [(''A'', [1, 3]), (''B'', [5, 6]), (''A'', [7, 9]), (''B'', [10, 12])]
   \<and> event_durations prt_interleaved = Inr [3, 2, 3, 3]
   \<and> condition_durations prt_interleaved = Inr [[2, 3], [3, 3]]
   \<and> event_list (state_of (convert_to_msec int_of_int prt_interleaved 2000)) =
       Inr [(''A'', [0, 6000]), (''B'', [8000, 12000]), (''A'', [12000, 18000]),
            (''B'', [18000, 24000])]
   \<and> event_durations (state_of (convert_to_msec int_of_int prt_interleaved 2000)) =
       Inr [6000, 4000, 6000, 6000]
   \<and> condition_durations (state_of (convert_to_msec int_of_int prt_interleaved 2000)) =
       Inr [[4000, 6000], [6000, 6000]]"
proof -
  have tu: "od_get (prt_header prt_interleaved) ''ResolutionOfTime'' = Some (HStr ''Volumes'')"
    by (simp add: prt_interleaved_eq od_get_def)
  have sh: "\<forall>a\<in>set (prt_conditions prt_interleaved).
               \<exists>k\<ge>2. data_shape1 (condition_data (prt_heap prt_interleaved ! a)) = Some k"
    by (simp add: prt_interleaved_eq data_shape1_def)
  have el: "event_list prt_interleaved =
     Inr [(''A'', [1, 3]), (''B'', [5, 6]), (''A'', [7, 9]), (''B'', [10, 12])]"
    by code_simp
  from C8_derived_views[OF tu sh] el
  have 1: "event_durations prt_interleaved = Inr [3, 2, 3, 3]"
    "condition_durations prt_interleaved = Inr [[2, 3], [3, 3]]"
    by (auto simp: prt_interleaved_eq)
  let ?q = "state_of (convert_to_msec int_of_int prt_interleaved 2000)"
  have q: "?q = \<lparr>prt_header = [(''FileVersion'', HInt 2),
                      (''ResolutionOfTime'', HStr ''msec''),
                      (''Experiment'', HStr ''untitled''),
                      (''BackgroundColor'', HList [0, 0, 0]),
                      (''TextColor'', HList [255, 255, 255]),
                      (''TimeCourseColor'', HList [255, 255, 255]),
                      (''TimeCourseThick'', HInt 3),
                      (''ReferenceFuncColor'', HList [0, 0, 80]),
                      (''ReferenceFuncThick'', HInt 3),
                      (''ParametricWeights'', HInt 0),
                      (''NrOfConditions'', HInt 2)],
       prt_conditions = [0, 1],
       prt_heap = [\<lparr>condition_name = ''B'', condition_data = [[8000, 12000], [18000, 24000]],
                     condition_colour = [0, 0, 255]\<rparr>,
                   \<lparr>condition_name = ''A'', condition_data = [[0, 6000], [12000, 18000]],
                     condition_colour = [255, 0, 0]\<rparr>]\<rparr>"
    by code_simp
  have tuq: "od_get (prt_header ?q) ''ResolutionOfTime'' = Some (HStr ''msec'')"
    by (simp add: q od_get_def)
  have shq: "\<forall>a\<in>set (prt_conditions ?q). \<exists>k\<ge>2. data_shape1 (condition_data (prt_heap ?q ! a)) = Some k"
    by (simp add: q data_shape1_def)
  have elq: "event_list ?q =
       Inr [(''A'', [0, 6000]), (''B'', [8000, 12000]), (''A'', [12000, 18000]),
            (''B'', [18000, 24000])]"
    by code_simp
  from C8_derived_views[OF tuq shq] elq
  have 2: "event_durations ?q = Inr [6000, 4000, 6000, 6000]"
    "condition_durations ?q = Inr [[4000, 6000], [6000, 6000]]"
    by (auto simp: q)
  show ?thesis using el 1 elq 2 by simp
qed

section \<open>Combining two conditions\<close>

text \<open>
  Claim C9. Adding two conditions gives the name \<open>a+b\<close>, the rows of both sorted by
  onset with every row kept intact, and the clamped sum of the colours. The source sorts
  with \<open>np.sort(..., axis=0)\<close>, which sorts every column by itself: for A with the row
  (1, 2, weight 5) and B with the row (3, 4, weight 2) the result has the rows
  (1, 2, 2) and (3, 4, 5), neither of which is a row of A or of B.
\<close>

theorem C9_combine_scrambles_rows:
  "condition_add (Condition ''A'' [[1, 2, 5 :: int]] [255, 0, 0]) (Condition ''B'' [[3, 4, 2]] [0, 0, 255])
     = Inr \<lparr>condition_name = ''A+B'', condition_data = [[1, 2, 2], [3, 4, 5]],
            condition_colour = [255, 0, 255]\<rparr>
   \<and> [1, 2, 2] \<notin> set [[1, 2, 5], [3, 4, 2 :: int]]"
  by code_simp

lemma condition_add_name_colour:
  assumes "condition_add a b = Inr c"
  shows "condition_name c = condition_name a @ ''+'' @ condition_name b \<and>
         condition_colour c =
           [min (condition_colour a ! 0 + condition_colour b ! 0) 255,
            min (condition_colour a ! 1 + condition_colour b ! 1) 255,
            min (condition_colour a ! 2 + condition_colour b ! 2) 255]"
  using assms
  by (auto simp: condition_add_def Condition_def split: sum.splits if_splits)

section \<open>Blocks with a declared row count\<close>

lemma py_index_at: "py_index (pre @ x # rest) (int (length pre)) = Some x"
  by (simp add: py_index_def)


lemma prt_parse_rows_complete:
  "\<forall>r\<in>set rws. prt_parse_row lit r \<noteq> None \<Longrightarrow>
   prt_parse_rows lit (pre @ rws @ rest) (int (length pre)) (length rws)
     = Inr (map (\<lambda>r. the (prt_parse_row lit r)) rws)"
proof (induction rws arbitrary: pre)
  case Nil
  then show ?case by simp
next
  case (Cons r rws)
  have "prt_parse_rows lit ((pre @ [r]) @ rws @ rest) (int (length (pre @ [r]))) (length rws)
     = Inr (map (\<lambda>r. the (prt_parse_row lit r)) rws)"
    by (rule Cons.IH) (use Cons.prems in simp)
  then have "prt_parse_rows lit (pre @ r # rws @ rest) (int (length pre) + 1) (length rws)
     = Inr (map (\<lambda>r. the (prt_parse_row lit r)) rws)"
    by (simp add: add.commute)
  moreover obtain c where "prt_parse_row lit r = Some c" using Cons.prems by auto
  ultimately show ?case
    by (simp add: py_index_at)
qed






lemma prt_block_complete:
  assumes "lines = pre @ [name, cnt] @ rws @ colour # rest"
    and "py_int cnt = Some (int (length rws))"
    and "\<forall>r\<in>set rws. prt_parse_row lit r \<noteq> None"
    and "all_ints (split_char CHR '' '' (drop 7 colour)) = Some col"
  shows "prt_parse_block lit lines (int (length pre)) ne =
           (Inr (Condition (strip name) (map (\<lambda>r. the (prt_parse_row lit r)) rws) col),
            Some (int (length rws)))"
proof -
  have 0: "py_index lines (int (length pre)) = Some name"
    using py_index_at[of pre name "cnt # rws @ colour # rest"] assms(1) by simp
  have 1: "py_index lines (int (length pre) + 1) = Some cnt"
    using py_index_at[of "pre @ [name]" cnt "rws @ colour # rest"] assms(1)
    by (simp add: add.commute)
  have 2: "prt_parse_rows lit lines (int (length pre) + 2) (length rws)
            = Inr (map (\<lambda>r. the (prt_parse_row lit r)) rws)"
    using prt_parse_rows_complete[OF assms(3), of "pre @ [name, cnt]" "colour # rest"] assms(1)
    by (simp add: add.commute)
  have 3: "py_index lines (int (length pre) + 2 + int (length rws)) = Some colour"
    using py_index_at[of "pre @ [name, cnt] @ rws" colour rest] assms(1)
    by (simp add: add.commute add.left_commute)
  show ?thesis
    using 0 1 2 3 assms(2,4) by (simp add: prt_parse_block_def)
qed







lemma retrofit_two_dimensional:
  "\<forall>a\<in>set as. a < length hp \<and> data_shape1 (condition_data (hp ! a)) \<noteq> None \<Longrightarrow>
   \<exists>hp'. retrofit as hp = (hp', None) \<and> length hp' = length hp \<and>
         (\<forall>b<length hp. b \<notin> set as \<longrightarrow> hp' ! b = hp ! b)"
proof (induction as arbitrary: hp)
  case Nil
  then show ?case by simp
next
  case (Cons a as)
  then obtain k where k: "data_shape1 (condition_data (hp ! a)) = Some k" and a: "a < length hp"
    by auto
  let ?hp = "if k < 3 then hp[a := widened (hp ! a)] else hp"
  have 1: "\<forall>b\<in>set as. b < length ?hp \<and> data_shape1 (condition_data (?hp ! b)) \<noteq> None"
  proof
    fix b assume b: "b \<in> set as"
    show "b < length ?hp \<and> data_shape1 (condition_data (?hp ! b)) \<noteq> None"
    proof (cases "b = a")
      case True
      then show ?thesis using a k data_shape1_append_unit[OF k] by (simp add: widened_def)
    next
      case False
      then show ?thesis using Cons.prems b by simp
    qed
  qed
  from Cons.IH[OF 1] obtain hp' where hp': "retrofit as ?hp = (hp', None)"
    "length hp' = length hp" "\<forall>b<length hp. b \<notin> set as \<longrightarrow> hp' ! b = ?hp ! b"
    by auto
  have "retrofit (a # as) hp = (hp', None)"
    using k hp'(1) by (auto simp: widened_def split: if_splits)
  moreover have "\<forall>b<length hp. b \<notin> set (a # as) \<longrightarrow> hp' ! b = hp ! b"
    using hp'(3) by auto
  ultimately show ?case using hp'(2) by simp
qed

text \<open>
  A complete block whose rows have one length, loaded into a protocol whose conditions
  are two-dimensional arrays and whose header has the entries of \<open>clear\<close>: the
  condition built from the rows of the block is appended and counted. It gets a column
  of ones when it has two columns at most and the header says that there are weights.
\<close>

lemma prt_block_appended:
  assumes "lines = pre @ [name, cnt] @ rws @ colour # rest"
    and "py_int cnt = Some (int (length rws))"
    and "\<forall>r\<in>set rws. prt_parse_row lit r \<noteq> None"
    and "all_ints (split_char CHR '' '' (drop 7 colour)) = Some col"
    and sh: "data_shape1 (map (\<lambda>r. the (prt_parse_row lit r)) rws) = Some k"
    and held: "\<forall>b\<in>set (prt_conditions p).
                 b < length (prt_heap p) \<and> data_shape1 (condition_data (prt_heap p ! b)) \<noteq> None"
    and cnt: "od_get (prt_header p) ''NrOfConditions'' = Some (HInt c)"
    and w: "weights_on (prt_header p) = Inr w"
  shows "\<exists>p'. prt_try_block lit lines (int (length pre)) ne p = (Done p', Some (int (length rws)))
           \<and> prt_conditions p' = prt_conditions p @ [length (prt_heap p)]
           \<and> prt_heap p' ! length (prt_heap p) =
               Condition (strip name)
                 (if k \<le> 2 \<and> w then map (\<lambda>r. the (prt_parse_row lit r) @ [1]) rws
                  else map (\<lambda>r. the (prt_parse_row lit r)) rws) col
           \<and> od_get (prt_header p') ''NrOfConditions'' = Some (HInt (c + 1))"
proof -
  let ?data = "map (\<lambda>r. the (prt_parse_row lit r)) rws"
  let ?c = "Condition (strip name) ?data col"
  let ?a = "length (prt_heap p)"
  let ?p1 = "p\<lparr>prt_heap := prt_heap p @ [?c]\<rparr>"
  have blk: "prt_parse_block lit lines (int (length pre)) ne = (Inr ?c, Some (int (length rws)))"
    using assms(1-4) by (rule prt_block_complete)
  have at: "prt_heap ?p1 ! ?a = ?c" by simp
  have shc: "data_shape1 (condition_data ?c) = Some k" using sh by (simp add: Condition_def)
  show ?thesis
  proof (cases "k > 2")
    case True
    have held1: "\<forall>b\<in>set (prt_conditions p).
        b < length (prt_heap p @ [?c]) \<and> data_shape1 (condition_data ((prt_heap p @ [?c]) ! b)) \<noteq> None"
      using held by (auto simp: nth_append)
    from retrofit_two_dimensional[OF held1] obtain hp' where
      hp': "retrofit (prt_conditions p) (prt_heap p @ [?c]) = (hp', None)"
        "length hp' = length (prt_heap p @ [?c])"
        "\<forall>b<length (prt_heap p @ [?c]). b \<notin> set (prt_conditions p) \<longrightarrow> hp' ! b = (prt_heap p @ [?c]) ! b"
      by blast
    have notin: "?a \<notin> set (prt_conditions p)" using held by auto
    have new: "hp' ! ?a = ?c" using hp'(3) notin by simp
    show ?thesis
      using blk True shc hp'(1) new cnt
      by (simp add: prt_try_block_def new_condition_def add_condition_def append_and_count_def
          od_get_od_set Let_def)
  next
    case False
    show ?thesis
    proof (cases w)
      case True
      then show ?thesis
        using blk False shc cnt w
        by (simp add: prt_try_block_def new_condition_def add_condition_def append_and_count_def
            od_get_od_set Let_def append_unit_column_def Condition_def comp_def)
    next
      case False
      then show ?thesis
        using blk \<open>\<not> 2 < k\<close> shc cnt w
        by (simp add: prt_try_block_def new_condition_def add_condition_def append_and_count_def
            od_get_od_set Let_def)
    qed
  qed
qed




section \<open>Loading a protocol into a protocol that holds conditions\<close>

text \<open>
  Claim C2. \<open>load\<close> resets the document and replaces header and body by the file's.
  \<open>StimulationProtocol.load\<close> does not reset: loading the file that \<open>save\<close> wrote
  for the example protocol into an empty protocol gives the conditions B, A, and loading
  it into the example protocol itself gives B, A, B, A with \<open>NrOfConditions\<close> 4.
\<close>

theorem C2_load_keeps_prior_state:
  "(case prt_save str_int prt_example of
      Inl e \<Rightarrow> False
    | Inr f \<Rightarrow>
        (case prt_load (int_literals fl) prt_empty f of
           Done q \<Rightarrow> map condition_name (conditions q) = [''B'', ''A'']
         | _ \<Rightarrow> False) \<and>
        (case prt_load (int_literals fl) prt_example f of
           Done q \<Rightarrow>
             map condition_name (conditions q) = [''B'', ''A'', ''B'', ''A''] \<and>
             od_get (prt_header q) ''NrOfConditions'' = Some (HInt 4)
         | _ \<Rightarrow> False))"
  by code_simp

section \<open>Counters and lengths kept by the other add methods\<close>

text \<open>
  The add methods of mdm, sdm and prt put the record into the body and count it; in a
  single-subject design matrix built by \<open>add_predictor\<close> all predictors have one
  length, so that its \<open>data\<close> accessor returns.
\<close>

lemma add_study_counts:
  assumes "add_study m s = Done m'"
    and "od_get (mdm_header m) ''NrOfStudies'' = Some (HInt (int (length (mdm_studies m))))"
  shows "mdm_studies m' = mdm_studies m @ [s] \<and>
         od_get (mdm_header m') ''NrOfStudies'' = Some (HInt (int (length (mdm_studies m'))))"
  using assms
  by (auto simp: add_study_def mdm_conflict_def mdm_count_and_append_def od_get_od_set
      split: if_splits option.splits sum.splits bool.splits)

lemma set_py_insert: "set (py_insert xs i x) = insert x (set xs)"
proof -
  have "set (take n xs) \<union> set (drop n xs) = set xs" for n
    by (metis append_take_drop_id set_append)
  then show ?thesis by (auto simp: py_insert_def Let_def)
qed

lemma length_py_insert: "length (py_insert xs i x) = Suc (length xs)"
  by (simp add: py_insert_def Let_def)

lemma add_predictor_counts:
  assumes "add_predictor d p conf = Done d'" and "sdm_consistent d"
  shows "sdm_consistent d' \<and> length (sdm_predictors d') = Suc (length (sdm_predictors d)) \<and>
         set (sdm_predictors d') = insert p (set (sdm_predictors d))"
  using assms
  by (auto simp: add_predictor_def sdm_consistent_def Let_def set_py_insert length_py_insert
      list_all_iff split: if_splits)

lemma sdm_build_consistent:
  "sdm_build d ps = Some d' \<Longrightarrow> sdm_consistent d \<Longrightarrow>
   sdm_consistent d' \<and> length (sdm_predictors d') = length (sdm_predictors d) + length ps"
proof (induction ps arbitrary: d)
  case Nil
  then show ?case by simp
next
  case (Cons pc ps)
  obtain p cf where pc: "pc = (p, cf)" by (cases pc)
  with Cons.prems obtain d1 where d1: "add_predictor d p cf = Done d1"
      and b: "sdm_build d1 ps = Some d'"
    by (auto split: outcome.splits)
  from add_predictor_counts[OF d1 Cons.prems(2)] Cons.IH[OF b] show ?case by simp
qed

lemma sdm_built_data:
  assumes "sdm_build sdm_clear ps = Some d" and "ps \<noteq> []"
  shows "\<exists>m. sdm_data d = Inr m \<and> shape1 m = length ps"
proof -
  have "sdm_consistent (sdm_clear :: 'a sdm_design_matrix)"
    by (simp add: sdm_consistent_def sdm_clear_def)
  from sdm_build_consistent[OF assms(1) this]
  have c: "sdm_consistent d" and l: "length (sdm_predictors d) = length ps"
    by (simp_all add: sdm_clear_def)
  let ?ser = "map predictor_data (sdm_predictors d)"
  have 1: "?ser \<noteq> []" using l assms(2) by auto
  have 2: "\<forall>x\<in>set ?ser. length x = nat (sdm_NrOfDataPoints (sdm_hdr d))"
    using c by (auto simp: sdm_consistent_def list_all_iff)
  from data_property_same_length[OF 1 2] show ?thesis
    by (simp add: sdm_data_def l)
qed

lemma add_condition_counts:
  assumes "add_condition p a = Done p'"
    and "od_get (prt_header p) ''NrOfConditions'' = Some (HInt (int (length (prt_conditions p))))"
  shows "prt_conditions p' = prt_conditions p @ [a] \<and>
         od_get (prt_header p') ''NrOfConditions'' = Some (HInt (int (length (prt_conditions p'))))"
  using assms
  by (auto simp: add_condition_def append_and_count_def weights_on_def od_get_od_set Let_def
      split: if_splits option.splits sum.splits bool.splits prod.splits hval.splits)


text \<open>
  The protocol format does round-trip on the example protocol, loaded into an empty
  protocol.
\<close>

lemma prt_roundtrip_example:
  "(case prt_save str_int prt_example of
      Inl e \<Rightarrow> False
    | Inr f \<Rightarrow> (case prt_load (int_literals fl) prt_empty f of
                  Done q \<Rightarrow> prt_save str_int q = Inr f
                | _ \<Rightarrow> False))"
  by code_simp

end
